theory Spec2Isabelle
  imports Complex_Main "HOL-Library.AList" "HOL-Library.Char_ord" "HOL-Library.List_Lexorder"
begin

section \<open>Python values\<close>

text \<open>
  The plan executor works on data decoded from JSON, so its arguments are dynamically
  typed. \<open>pyval\<close> is the type of those values: \<open>None\<close>, booleans, unbounded integers,
  floats, strings, lists and dictionaries with string keys (kept as association lists in
  insertion order). A finite float is represented by the real number it denotes, so
  float arithmetic is idealised as exact; \<open>PInf True\<close> and \<open>PInf False\<close> are the floats
  \<open>inf\<close> and \<open>-inf\<close>, which Python's JSON decoder produces for a number literal that
  overflows (such as \<open>1e999\<close>). The float \<open>nan\<close> is not represented. Strings are ASCII
  text.
\<close>

datatype pyval =
    PNone
  | PBool bool
  | PInt int
  | PFloat real
  | PInf bool
  | PStr string
  | PList "pyval list"
  | PDict "(string \<times> pyval) list"

type_synonym pydict = "(string \<times> pyval) list"

text \<open>The exceptions that the modelled code can meet; all derive from \<open>Exception\<close>.\<close>

datatype exn = AttributeError | TypeError | ValueError | OverflowError | SqliteError

text \<open>
  Services of the Python runtime and of the SQLite engine that the repository calls but
  does not define are taken as a parameter:
  \<^item> \<open>py_repr\<close>: the text \<open>str()\<close> gives for a float, a list or a dictionary;
  \<^item> \<open>text_numeric\<close>: SQLite's conversion of a TEXT value under NUMERIC affinity
    (\<open>None\<close> when the text is not a well-formed numeric literal);
  \<^item> \<open>exc_text\<close>: the text \<open>str(e)\<close> of an exception;
  \<^item> \<open>iso_minus_days\<close>: \<open>(t - timedelta(days=d)).isoformat()\<close> for a clock reading
    given in ISO format, \<open>None\<close> when \<open>datetime\<close> raises \<open>OverflowError\<close>.
\<close>

record runtime =
  py_repr :: "pyval \<Rightarrow> string"
  text_numeric :: "string \<Rightarrow> real option"
  exc_text :: "exn \<Rightarrow> string"
  iso_minus_days :: "string \<Rightarrow> int \<Rightarrow> string option"

subsection \<open>Truthiness, \<open>str()\<close> and number formatting\<close>

fun truthy :: "pyval \<Rightarrow> bool" where
  "truthy PNone = False"
| "truthy (PBool b) = b"
| "truthy (PInt i) = (i \<noteq> 0)"
| "truthy (PFloat r) = (r \<noteq> 0)"
| "truthy (PInf b) = True"
| "truthy (PStr s) = (s \<noteq> [])"
| "truthy (PList xs) = (xs \<noteq> [])"
| "truthy (PDict d) = (d \<noteq> [])"

text \<open>The decimal digit \<open>d\<close>, for \<open>d < 10\<close>.\<close>

definition digit_char :: "nat \<Rightarrow> char" where
  "digit_char d = ''0123456789'' ! d"

fun str_nat :: "nat \<Rightarrow> string" where
  "str_nat n = (if n < 10 then [digit_char n] else str_nat (n div 10) @ [digit_char (n mod 10)])"

declare str_nat.simps [simp del]

definition str_int :: "int \<Rightarrow> string" where
  "str_int i = (if i < 0 then CHR ''-'' # str_nat (nat (- i)) else str_nat (nat i))"

fun py_str :: "runtime \<Rightarrow> pyval \<Rightarrow> string" where
  "py_str rt PNone = ''None''"
| "py_str rt (PBool b) = (if b then ''True'' else ''False'')"
| "py_str rt (PInt i) = str_int i"
| "py_str rt (PInf b) = (if b then ''inf'' else ''-inf'')"
| "py_str rt (PStr s) = s"
| "py_str rt v = py_repr rt v"

text \<open>
  The format \<open>:.2f\<close>: the value rounded to two decimals, ties to the even neighbour,
  with the sign of the value kept even when the digits are all zero.
\<close>

definition round_half_even :: "real \<Rightarrow> int" where
  "round_half_even x =
     (let f = \<lfloor>x\<rfloor>; d = x - of_int f
      in if d < 1 / 2 then f else if 1 / 2 < d then f + 1 else if even f then f else f + 1)"

definition fmt_2f :: "real \<Rightarrow> string" where
  "fmt_2f x =
     (let n = nat (round_half_even (\<bar>x\<bar> * 100))
      in (if x < 0 then ''-'' else '''') @ str_nat (n div 100) @ ''.''
         @ [digit_char (n mod 100 div 10), digit_char (n mod 10)])"

text \<open>\<open>str.lower()\<close> on ASCII text.\<close>

definition ascii_lower :: "char \<Rightarrow> char" where
  "ascii_lower c =
     (case map_of (zip ''ABCDEFGHIJKLMNOPQRSTUVWXYZ'' ''abcdefghijklmnopqrstuvwxyz'') c of
        None \<Rightarrow> c
      | Some l \<Rightarrow> l)"

definition py_lower :: "string \<Rightarrow> string" where
  "py_lower s = map ascii_lower s"

section \<open>The ledger store (database.py)\<close>

text \<open>
  The tables \<open>accounts\<close> and \<open>transactions\<close> are lists of rows in storage order.
  \<open>tx_seq\<close> is the AUTOINCREMENT counter of \<open>transactions\<close>: the largest row id handed
  out so far. Balances have the column type REAL and are modelled as reals.
\<close>

record account =
  acc_id :: int
  acc_user_id :: int
  acc_balance :: real

record transaction =
  tx_id :: int
  tx_account_id :: int
  tx_type :: string
  tx_amount :: real
  tx_timestamp :: string

record database =
  accounts :: "account list"
  transactions :: "transaction list"
  tx_seq :: int

subsection \<open>Binding a Python value to an SQL parameter\<close>

datatype sqlval = SqlNull | SqlInteger int | SqlReal real | SqlInf bool | SqlText string

definition int64 :: "int \<Rightarrow> bool" where
  "int64 i = (- (2 ^ 63) \<le> i \<and> i < 2 ^ 63)"

text \<open>
  The \<open>sqlite3\<close> module adapts \<open>None\<close>, \<open>int\<close> (and so \<open>bool\<close>), \<open>float\<close> and \<open>str\<close>;
  an integer outside 64 bits raises \<open>OverflowError\<close>, any other type is refused.
\<close>

fun sql_bind :: "pyval \<Rightarrow> exn + sqlval" where
  "sql_bind PNone = Inr SqlNull"
| "sql_bind (PBool b) = Inr (SqlInteger (if b then 1 else 0))"
| "sql_bind (PInt i) = (if int64 i then Inr (SqlInteger i) else Inl OverflowError)"
| "sql_bind (PFloat r) = Inr (SqlReal r)"
| "sql_bind (PInf b) = Inr (SqlInf b)"
| "sql_bind (PStr s) = Inr (SqlText s)"
| "sql_bind (PList xs) = Inl SqliteError"
| "sql_bind (PDict d) = Inl SqliteError"

definition integral :: "real \<Rightarrow> int option" where
  "integral r = (if r = of_int \<lfloor>r\<rfloor> then Some \<lfloor>r\<rfloor> else None)"

text \<open>
  \<open>sql_match_id rt v\<close> is the integer that the bound value \<open>v\<close> equals in a comparison
  with an INTEGER column (\<open>WHERE id = ?\<close>), if there is one.
\<close>

fun sql_match_id :: "runtime \<Rightarrow> sqlval \<Rightarrow> int option" where
  "sql_match_id rt SqlNull = None"
| "sql_match_id rt (SqlInteger i) = Some i"
| "sql_match_id rt (SqlReal r) = integral r"
| "sql_match_id rt (SqlInf b) = None"
| "sql_match_id rt (SqlText s) = (case text_numeric rt s of None \<Rightarrow> None | Some r \<Rightarrow> integral r)"

definition sql_key :: "runtime \<Rightarrow> pyval \<Rightarrow> exn + int option" where
  "sql_key rt v = (case sql_bind v of Inl e \<Rightarrow> Inl e | Inr sv \<Rightarrow> Inr (sql_match_id rt sv))"

subsection \<open>Statements on the tables\<close>

text \<open>\<open>SELECT balance FROM accounts WHERE id = ?\<close> followed by \<open>fetchone()\<close>.\<close>

definition select_balance :: "database \<Rightarrow> int option \<Rightarrow> real option" where
  "select_balance db k =
     (case k of None \<Rightarrow> None
      | Some i \<Rightarrow> map_option acc_balance (find (\<lambda>a. acc_id a = i) (accounts db)))"

text \<open>\<open>UPDATE accounts SET balance = ? WHERE id = ?\<close>.\<close>

definition update_balance :: "database \<Rightarrow> real \<Rightarrow> int option \<Rightarrow> database" where
  "update_balance db b k =
     db\<lparr>accounts := map (\<lambda>a. if Some (acc_id a) = k then a\<lparr>acc_balance := b\<rparr> else a) (accounts db)\<rparr>"

text \<open>\<open>INSERT INTO transactions (account_id, type, amount, timestamp) VALUES (?, ?, ?, ?)\<close>.\<close>

definition insert_transaction :: "database \<Rightarrow> int \<Rightarrow> string \<Rightarrow> real \<Rightarrow> string \<Rightarrow> database" where
  "insert_transaction db acct typ amt ts =
     db\<lparr>transactions := transactions db @
           [\<lparr>tx_id = tx_seq db + 1, tx_account_id = acct, tx_type = typ,
             tx_amount = amt, tx_timestamp = ts\<rparr>],
        tx_seq := tx_seq db + 1\<rparr>"

subsection \<open>\<open>BankingDatabase.get_account_balance\<close>\<close>

definition db_get_account_balance :: "runtime \<Rightarrow> database \<Rightarrow> pyval \<Rightarrow> exn + real option" where
  "db_get_account_balance rt db account_id =
     (case sql_key rt account_id of Inl e \<Rightarrow> Inl e | Inr k \<Rightarrow> Inr (select_balance db k))"

subsection \<open>\<open>BankingDatabase.transfer_money\<close>\<close>

text \<open>
  \<open>now\<close> is the clock reading \<open>datetime.now().isoformat()\<close> taken by the call. The body
  of the \<open>try\<close> block returns the pair of the result and the store as committed, or the
  exception raised; the handler rolls back, so the store is the one before the call.
  The amount has passed the operation library's checks and is a finite number.
\<close>

definition transfer_try ::
  "runtime \<Rightarrow> string \<Rightarrow> database \<Rightarrow> pyval \<Rightarrow> pyval \<Rightarrow> real \<Rightarrow> exn + ((bool \<times> string) \<times> database)" where
  "transfer_try rt now db from_account_id to_account_id amount =
     (case sql_key rt from_account_id of Inl e \<Rightarrow> Inl e
      | Inr fk \<Rightarrow>
     (case select_balance db fk of
        None \<Rightarrow> Inr ((False, ''Source account '' @ py_str rt from_account_id @ '' not found''), db)
      | Some from_balance \<Rightarrow>
     (case sql_key rt to_account_id of Inl e \<Rightarrow> Inl e
      | Inr tk \<Rightarrow>
     (case select_balance db tk of
        None \<Rightarrow> Inr ((False, ''Destination account '' @ py_str rt to_account_id @ '' not found''), db)
      | Some to_balance \<Rightarrow>
        if from_balance < amount
        then Inr ((False, ''Insufficient balance. Available: $'' @ fmt_2f from_balance), db)
        else
          let new_from_balance = from_balance - amount;
              new_to_balance = to_balance + amount;
              db1 = update_balance db new_from_balance fk;
              db2 = update_balance db1 new_to_balance tk;
              db3 = insert_transaction db2 (the fk) ''debit'' amount now;
              db4 = insert_transaction db3 (the tk) ''credit'' amount now
          in Inr ((True, ''Successfully transferred $'' @ fmt_2f amount), db4)))))"

definition db_transfer_money ::
  "runtime \<Rightarrow> string \<Rightarrow> database \<Rightarrow> pyval \<Rightarrow> pyval \<Rightarrow> real \<Rightarrow> (bool \<times> string) \<times> database" where
  "db_transfer_money rt now db from_account_id to_account_id amount =
     (case transfer_try rt now db from_account_id to_account_id amount of
        Inl e \<Rightarrow> ((False, ''Transfer failed: '' @ exc_text rt e), db)
      | Inr r \<Rightarrow> r)"

subsection \<open>\<open>BankingDatabase.get_recent_transactions\<close>\<close>

text \<open>
  \<open>LIMIT ?\<close> needs a value that converts to a 64-bit integer without loss; otherwise
  the statement fails with a datatype mismatch. A negative limit means no limit.
\<close>

definition integral64 :: "real \<Rightarrow> exn + int" where
  "integral64 r =
     (case integral r of
        None \<Rightarrow> Inl SqliteError
      | Some i \<Rightarrow> if int64 i then Inr i else Inl SqliteError)"

fun sql_limit :: "runtime \<Rightarrow> sqlval \<Rightarrow> exn + int" where
  "sql_limit rt SqlNull = Inl SqliteError"
| "sql_limit rt (SqlInteger i) = Inr i"
| "sql_limit rt (SqlReal r) = integral64 r"
| "sql_limit rt (SqlInf b) = Inl SqliteError"
| "sql_limit rt (SqlText s) =
     (case text_numeric rt s of None \<Rightarrow> Inl SqliteError | Some r \<Rightarrow> integral64 r)"

definition row_dict :: "transaction \<Rightarrow> pyval" where
  "row_dict t =
     PDict [(''id'', PInt (tx_id t)), (''type'', PStr (tx_type t)),
            (''amount'', PFloat (tx_amount t)), (''timestamp'', PStr (tx_timestamp t))]"

text \<open>
  \<open>ORDER BY timestamp DESC\<close> compares the ISO texts; rows with equal timestamps stay
  in insertion order.
\<close>

definition order_by_timestamp_desc :: "transaction list \<Rightarrow> transaction list" where
  "order_by_timestamp_desc rows = rev (sort_key tx_timestamp (rev rows))"

definition db_get_recent_transactions :: "runtime \<Rightarrow> database \<Rightarrow> pyval \<Rightarrow> pyval \<Rightarrow> exn + pyval list" where
  "db_get_recent_transactions rt db account_id limit =
     (case sql_key rt account_id of Inl e \<Rightarrow> Inl e
      | Inr k \<Rightarrow>
     (case sql_bind limit of Inl e \<Rightarrow> Inl e
      | Inr lv \<Rightarrow>
     (case sql_limit rt lv of Inl e \<Rightarrow> Inl e
      | Inr n \<Rightarrow>
        let rows = order_by_timestamp_desc
                     (filter (\<lambda>t. Some (tx_account_id t) = k) (transactions db))
        in Inr (map row_dict (if n < 0 then rows else take (nat n) rows)))))"

subsection \<open>\<open>BankingDatabase.get_transaction_summary\<close>\<close>

text \<open>\<open>GROUP BY type\<close> yields one row for each type, in the order of the type texts.\<close>

definition db_get_transaction_summary ::
  "runtime \<Rightarrow> string \<Rightarrow> database \<Rightarrow> pyval \<Rightarrow> int \<Rightarrow> exn + pydict" where
  "db_get_transaction_summary rt now db account_id days =
     (case iso_minus_days rt now days of None \<Rightarrow> Inl OverflowError
      | Some threshold \<Rightarrow>
     (case sql_key rt account_id of Inl e \<Rightarrow> Inl e
      | Inr k \<Rightarrow>
        let rows = filter (\<lambda>t. Some (tx_account_id t) = k \<and> threshold \<le> tx_timestamp t)
                     (transactions db)
        in Inr (map (\<lambda>ty. (ty, PDict
                  [(''total'', PFloat (sum_list (map tx_amount (filter (\<lambda>t. tx_type t = ty) rows)))),
                   (''count'', PInt (int (length (filter (\<lambda>t. tx_type t = ty) rows))))]))
                (sort (remdups (map tx_type rows))))))"

section \<open>The operation library (tools/banking-operations module)\<close>

subsection \<open>\<open>BankingOperations.get_balance\<close>\<close>

definition ops_get_balance :: "runtime \<Rightarrow> database \<Rightarrow> pyval \<Rightarrow> exn + (real option \<times> string option)" where
  "ops_get_balance rt db account_id =
     (case db_get_account_balance rt db account_id of Inl e \<Rightarrow> Inl e
      | Inr None \<Rightarrow> Inr (None, Some (''Account '' @ py_str rt account_id @ '' not found''))
      | Inr (Some balance) \<Rightarrow> Inr (Some balance, None))"

subsection \<open>\<open>BankingOperations.transfer_money\<close>\<close>

text \<open>
  The amount arrives untyped. Comparing a value that is not a number with \<open>0\<close> raises
  \<open>TypeError\<close>; the two infinities are numbers and are refused by the two checks.
\<close>

datatype pynum = Fin real | Inf bool

fun num_of :: "pyval \<Rightarrow> pynum option" where
  "num_of (PBool b) = Some (Fin (if b then 1 else 0))"
| "num_of (PInt i) = Some (Fin (of_int i))"
| "num_of (PFloat r) = Some (Fin r)"
| "num_of (PInf b) = Some (Inf b)"
| "num_of v = None"

definition ops_transfer_money ::
  "runtime \<Rightarrow> string \<Rightarrow> database \<Rightarrow> pyval \<Rightarrow> pyval \<Rightarrow> pyval \<Rightarrow> exn + ((bool \<times> string) \<times> database)" where
  "ops_transfer_money rt now db from_account_id to_account_id amount =
     (case num_of amount of
        None \<Rightarrow> Inl TypeError
      | Some (Inf b) \<Rightarrow>
          if \<not> b then Inr ((False, ''Amount must be positive''), db)
          else Inr ((False, ''Amount exceeds maximum transfer limit''), db)
      | Some (Fin x) \<Rightarrow>
          if x \<le> 0 then Inr ((False, ''Amount must be positive''), db)
          else if x > 1000000 then Inr ((False, ''Amount exceeds maximum transfer limit''), db)
          else Inr (db_transfer_money rt now db from_account_id to_account_id x))"

subsection \<open>\<open>BankingOperations.get_recent_transactions\<close> and \<open>get_insights\<close>\<close>

definition ops_get_recent_transactions :: "runtime \<Rightarrow> database \<Rightarrow> pyval \<Rightarrow> pyval \<Rightarrow> exn + pyval list" where
  "ops_get_recent_transactions rt db account_id limit = db_get_recent_transactions rt db account_id limit"

definition ops_get_insights :: "runtime \<Rightarrow> string \<Rightarrow> database \<Rightarrow> pyval \<Rightarrow> int \<Rightarrow> exn + pydict" where
  "ops_get_insights rt now db account_id days = db_get_transaction_summary rt now db account_id days"

subsection \<open>\<open>BankingOperations.simulate_transaction\<close>\<close>

text \<open>
  Converting an integer to a float for the subtraction raises \<open>OverflowError\<close> when the
  integer is beyond the float range.
\<close>

definition float_range :: "int \<Rightarrow> bool" where
  "float_range i = (\<bar>i\<bar> < 2 ^ 1024 - 2 ^ 970)"

fun py_neg :: "pyval \<Rightarrow> exn + pyval" where
  "py_neg (PBool b) = Inr (PInt (if b then - 1 else 0))"
| "py_neg (PInt i) = Inr (PInt (- i))"
| "py_neg (PFloat r) = Inr (PFloat (- r))"
| "py_neg (PInf b) = Inr (PInf (\<not> b))"
| "py_neg v = Inl TypeError"

fun float_sub :: "real \<Rightarrow> pyval \<Rightarrow> exn + pyval" where
  "float_sub x (PBool b) = Inr (PFloat (x - (if b then 1 else 0)))"
| "float_sub x (PInt i) = (if float_range i then Inr (PFloat (x - of_int i)) else Inl OverflowError)"
| "float_sub x (PFloat r) = Inr (PFloat (x - r))"
| "float_sub x (PInf b) = Inr (PInf (\<not> b))"
| "float_sub x v = Inl TypeError"


fun py_ge_zero :: "pyval \<Rightarrow> bool" where
  "py_ge_zero (PFloat r) = (0 \<le> r)"
| "py_ge_zero (PInf b) = b"
| "py_ge_zero v = False"

text \<open>The result is paired with the store as the call leaves it.\<close>

definition ops_simulate_transaction ::
  "runtime \<Rightarrow> database \<Rightarrow> pyval \<Rightarrow> pyval \<Rightarrow> exn + (pydict \<times> database)" where
  "ops_simulate_transaction rt db account_id amount =
     (case ops_get_balance rt db account_id of Inl e \<Rightarrow> Inl e
      | Inr (current_balance, error) \<Rightarrow>
        if (case error of None \<Rightarrow> False | Some m \<Rightarrow> m \<noteq> [])
        then (case py_neg amount of Inl e \<Rightarrow> Inl e
              | Inr negated \<Rightarrow>
                Inr ([(''affordable'', PBool False), (''current_balance'', PFloat 0),
                      (''projected_balance'', negated), (''amount'', amount),
                      (''error'', PStr (the error))], db))
        else (case current_balance of
                None \<Rightarrow> Inl TypeError
              | Some cb \<Rightarrow>
                (case float_sub cb amount of Inl e \<Rightarrow> Inl e
                 | Inr projected_balance \<Rightarrow>
                   Inr ([(''affordable'', PBool (py_ge_zero projected_balance)),
                         (''current_balance'', PFloat cb),
                         (''projected_balance'', projected_balance), (''amount'', amount)], db))))"

section \<open>The plan executor (mcp/executor.py)\<close>

subsection \<open>Dictionaries\<close>

text \<open>\<open>d.get(k)\<close>, \<open>d.get(k, default)\<close>, \<open>d[k] = v\<close> and \<open>d.update(other)\<close>.\<close>

definition dget :: "pydict \<Rightarrow> string \<Rightarrow> pyval" where
  "dget d k = (case map_of d k of None \<Rightarrow> PNone | Some v \<Rightarrow> v)"

definition dget_default :: "pydict \<Rightarrow> string \<Rightarrow> pyval \<Rightarrow> pyval" where
  "dget_default d k v0 = (case map_of d k of None \<Rightarrow> v0 | Some v \<Rightarrow> v)"

definition dict_update :: "pydict \<Rightarrow> pydict \<Rightarrow> pydict" where
  "dict_update d other = fold (\<lambda>(k, v). AList.update k v) other d"

definition failure :: "string \<Rightarrow> pydict" where
  "failure msg = [(''success'', PBool False), (''error'', PStr msg)]"

subsection \<open>\<open>Executor._parse_time_period\<close>\<close>

definition is_digit :: "char \<Rightarrow> bool" where
  "is_digit c = (c \<in> set ''0123456789'')"

text \<open>\<open>re.search(r'(\d+)', s)\<close>: the first maximal run of digits, if there is one.\<close>

definition first_digits :: "string \<Rightarrow> string option" where
  "first_digits s =
     (let ds = takeWhile is_digit (dropWhile (\<lambda>c. \<not> is_digit c) s)
      in if ds = [] then None else Some ds)"

definition digit_value :: "char \<Rightarrow> int" where
  "digit_value c = (case map_of (zip ''0123456789'' [0, 1, 2, 3, 4, 5, 6, 7, 8, 9]) c of
                      None \<Rightarrow> 0
                    | Some d \<Rightarrow> d)"

definition int_of_digits :: "string \<Rightarrow> int" where
  "int_of_digits ds = foldl (\<lambda>n c. 10 * n + digit_value c) 0 ds"

text \<open>
  \<open>int(x)\<close> on a float truncates towards zero and raises on an infinity. On a text
  of more than 4300 digits (the default limit of the interpreter since Python 3.11)
  it raises \<open>ValueError\<close>.
\<close>

definition max_str_digits :: nat where
  "max_str_digits = 4300"

definition truncate :: "real \<Rightarrow> int" where
  "truncate r = (if 0 \<le> r then \<lfloor>r\<rfloor> else \<lceil>r\<rceil>)"

fun parse_time_period :: "pyval \<Rightarrow> exn + int" where
  "parse_time_period (PBool b) = Inr (if b then 1 else 0)"
| "parse_time_period (PInt i) = Inr i"
| "parse_time_period (PFloat r) = Inr (truncate r)"
| "parse_time_period (PInf b) = Inl OverflowError"
| "parse_time_period (PStr s) =
     (case first_digits s of
        None \<Rightarrow> Inr 30
      | Some ds \<Rightarrow> if max_str_digits < length ds then Inl ValueError else Inr (int_of_digits ds))"
| "parse_time_period v = Inr 30"

subsection \<open>\<open>Executor._get_default_account_id\<close>\<close>

text \<open>\<open>SELECT id FROM accounts LIMIT 1\<close>: the id of the first row, or \<open>None\<close>.\<close>

definition get_default_account_id :: "database \<Rightarrow> pyval" where
  "get_default_account_id db = (case accounts db of [] \<Rightarrow> PNone | a # _ \<Rightarrow> PInt (acc_id a))"

subsection \<open>\<open>Executor._execute_tool\<close>\<close>

definition tool_mapping :: "(string \<times> string) list" where
  "tool_mapping =
     [(''get_balance'', ''get_balance''),
      (''account_balance_check'', ''get_balance''),
      (''check_balance'', ''get_balance''),
      (''balance_check'', ''get_balance''),
      (''transfer_money'', ''transfer_money''),
      (''transfer_funds'', ''transfer_money''),
      (''transfer'', ''transfer_money''),
      (''get_transactions'', ''get_transactions''),
      (''fetch_transactions'', ''get_transactions''),
      (''recent_transactions'', ''get_transactions''),
      (''simulate_transaction'', ''simulate_transaction''),
      (''what_if'', ''simulate_transaction''),
      (''affordability_check'', ''simulate_transaction''),
      (''get_insights'', ''get_insights''),
      (''spending_insights'', ''get_insights''),
      (''insights'', ''get_insights'')]"

definition normalized_tool :: "runtime \<Rightarrow> pyval \<Rightarrow> pyval" where
  "normalized_tool rt tool_name =
     (case map_of tool_mapping
             (case tool_name of PStr s \<Rightarrow> py_lower s | v \<Rightarrow> py_lower (py_str rt v)) of
        None \<Rightarrow> tool_name
      | Some canonical \<Rightarrow> PStr canonical)"

text \<open>
  Each branch of the \<open>try\<close> block is a function from the store and the parameters to the
  result dictionary or the exception raised, paired with the store afterwards.
  \<open>parameters.get\<close> raises \<open>AttributeError\<close> when \<open>parameters\<close> is not a dictionary.
\<close>

definition exec_get_balance :: "runtime \<Rightarrow> database \<Rightarrow> pyval \<Rightarrow> (exn + pydict) \<times> database" where
  "exec_get_balance rt db parameters =
     (case parameters of
        PDict d \<Rightarrow>
          let account_id = dget d ''account_id''
          in if \<not> truthy account_id then (Inr (failure ''account_id required''), db)
             else (case ops_get_balance rt db account_id of
                     Inl e \<Rightarrow> (Inl e, db)
                   | Inr (balance, error) \<Rightarrow>
                       if (case error of None \<Rightarrow> False | Some m \<Rightarrow> m \<noteq> [])
                       then (Inr [(''success'', PBool False), (''error'', PStr (the error)),
                                  (''account_id'', account_id)], db)
                       else (Inr [(''success'', PBool True),
                                  (''balance'', (case balance of None \<Rightarrow> PNone | Some b \<Rightarrow> PFloat b)),
                                  (''account_id'', account_id)], db))
      | _ \<Rightarrow> (Inl AttributeError, db))"

definition exec_transfer_money ::
  "runtime \<Rightarrow> string \<Rightarrow> database \<Rightarrow> pyval \<Rightarrow> (exn + pydict) \<times> database" where
  "exec_transfer_money rt now db parameters =
     (case parameters of
        PDict d \<Rightarrow>
          let from_account = (if truthy (dget d ''account_id'') then dget d ''account_id''
                              else dget d ''from_account'');
              to_account = (if truthy (dget d ''recipient_account'') then dget d ''recipient_account''
                            else dget d ''to_account'');
              amount = dget d ''amount''
          in if \<not> (truthy from_account \<and> truthy to_account \<and> truthy amount)
             then (Inr (failure ''Missing required parameters''), db)
             else (case ops_transfer_money rt now db from_account to_account amount of
                     Inl e \<Rightarrow> (Inl e, db)
                   | Inr ((success, message), db') \<Rightarrow>
                       if success
                       then (case ops_get_balance rt db' from_account of
                               Inl e \<Rightarrow> (Inl e, db')
                             | Inr (new_balance, _) \<Rightarrow>
                                 (Inr [(''success'', PBool True), (''amount'', amount),
                                       (''from_account'', from_account), (''to_account'', to_account),
                                       (''new_balance'',
                                          (case new_balance of None \<Rightarrow> PNone | Some b \<Rightarrow> PFloat b)),
                                       (''message'', PStr message)], db'))
                       else (Inr (failure message), db'))
      | _ \<Rightarrow> (Inl AttributeError, db))"

definition exec_get_transactions :: "runtime \<Rightarrow> database \<Rightarrow> pyval \<Rightarrow> (exn + pydict) \<times> database" where
  "exec_get_transactions rt db parameters =
     (case parameters of
        PDict d \<Rightarrow>
          let account_id = dget d ''account_id'';
              limit = dget_default d ''limit'' (PInt 10);
              account_id = (if \<not> truthy account_id then get_default_account_id db else account_id)
          in if \<not> truthy account_id
             then (Inr (failure
                     ''account_id required. Please specify an account (e.g., 'account 1')''), db)
             else (case ops_get_recent_transactions rt db account_id limit of
                     Inl e \<Rightarrow> (Inl e, db)
                   | Inr txns \<Rightarrow>
                       (Inr [(''success'', PBool True), (''transactions'', PList txns),
                             (''account_id'', account_id)], db))
      | _ \<Rightarrow> (Inl AttributeError, db))"

definition exec_simulate_transaction :: "runtime \<Rightarrow> database \<Rightarrow> pyval \<Rightarrow> (exn + pydict) \<times> database" where
  "exec_simulate_transaction rt db parameters =
     (case parameters of
        PDict d \<Rightarrow>
          let account_id = dget d ''account_id'';
              amount = dget d ''amount''
          in if \<not> (truthy account_id \<and> truthy amount)
             then (Inr (failure ''Missing required parameters''), db)
             else (case ops_simulate_transaction rt db account_id amount of
                     Inl e \<Rightarrow> (Inl e, db)
                   | Inr (result, db') \<Rightarrow> (Inr (dict_update [(''success'', PBool True)] result), db'))
      | _ \<Rightarrow> (Inl AttributeError, db))"

definition exec_get_insights :: "runtime \<Rightarrow> string \<Rightarrow> database \<Rightarrow> pyval \<Rightarrow> (exn + pydict) \<times> database" where
  "exec_get_insights rt now db parameters =
     (case parameters of
        PDict d \<Rightarrow>
          let account_id = dget d ''account_id'';
              time_period = dget_default d ''time_period'' (PInt 30);
              account_id = (if \<not> truthy account_id then get_default_account_id db else account_id)
          in if \<not> truthy account_id
             then (Inr (failure
                     ''account_id required. Please specify an account (e.g., 'account 7')''), db)
             else (case parse_time_period time_period of
                     Inl e \<Rightarrow> (Inl e, db)
                   | Inr days \<Rightarrow>
                       (case ops_get_insights rt now db account_id days of
                          Inl e \<Rightarrow> (Inl e, db)
                        | Inr insights \<Rightarrow>
                            (Inr [(''success'', PBool True), (''summary'', PDict insights),
                                  (''account_id'', account_id)], db)))
      | _ \<Rightarrow> (Inl AttributeError, db))"

definition execute_tool_try ::
  "runtime \<Rightarrow> string \<Rightarrow> database \<Rightarrow> pyval \<Rightarrow> pyval \<Rightarrow> pyval \<Rightarrow> (exn + pydict) \<times> database" where
  "execute_tool_try rt now db tool_name normalized parameters =
     (if normalized = PStr ''get_balance'' then exec_get_balance rt db parameters
      else if normalized = PStr ''transfer_money'' then exec_transfer_money rt now db parameters
      else if normalized = PStr ''get_transactions'' then exec_get_transactions rt db parameters
      else if normalized = PStr ''simulate_transaction'' then exec_simulate_transaction rt db parameters
      else if normalized = PStr ''get_insights'' then exec_get_insights rt now db parameters
      else (Inr (failure (''Unknown tool: '' @ py_str rt tool_name
                          @ '' (normalized: '' @ py_str rt normalized @ '')'')), db))"

definition execute_tool :: "runtime \<Rightarrow> string \<Rightarrow> database \<Rightarrow> pyval \<Rightarrow> pyval \<Rightarrow> pydict \<times> database" where
  "execute_tool rt now db tool_name parameters =
     (if tool_name = PNone then (failure ''Tool name is missing'', db)
      else (case execute_tool_try rt now db tool_name (normalized_tool rt tool_name) parameters of
              (Inl e, db') \<Rightarrow> (failure (exc_text rt e), db')
            | (Inr result, db') \<Rightarrow> (result, db')))"

subsection \<open>\<open>Executor.execute_plan\<close>\<close>

text \<open>
  The loop over the steps of the plan. \<open>clock n\<close> is the clock reading during step
  number \<open>n\<close>; \<open>all_results\<close> is the dictionary built so far.
\<close>

definition step_key :: "runtime \<Rightarrow> pydict \<Rightarrow> string" where
  "step_key rt step = ''step_'' @ py_str rt (dget step ''step_id'')"

fun execute_steps ::
  "runtime \<Rightarrow> (nat \<Rightarrow> string) \<Rightarrow> nat \<Rightarrow> database \<Rightarrow> pydict \<Rightarrow> pydict list \<Rightarrow> pydict \<times> database" where
  "execute_steps rt clock n db all_results [] = (all_results, db)"
| "execute_steps rt clock n db all_results (step # steps) =
     (let tool_name = dget step ''tool'';
          parameters = dget_default step ''parameters'' (PDict [])
      in if \<not> truthy tool_name
         then execute_steps rt clock (Suc n) db
                (AList.update (step_key rt step)
                   (PDict (failure ''Tool name is missing from plan step'')) all_results) steps
         else (case execute_tool rt (clock n) db tool_name parameters of
                 (result, db') \<Rightarrow>
                   execute_steps rt clock (Suc n) db'
                     (dict_update (AList.update (step_key rt step) (PDict result) all_results) result)
                     steps))"

definition execute_plan :: "runtime \<Rightarrow> (nat \<Rightarrow> string) \<Rightarrow> database \<Rightarrow> pydict list \<Rightarrow> pydict \<times> database" where
  "execute_plan rt clock db steps = execute_steps rt clock 0 db [] steps"

subsection \<open>Canonical operations and the shape of a result\<close>

text \<open>The five operations that \<open>_execute_tool\<close> dispatches on.\<close>

definition canonical_tools :: "string list" where
  "canonical_tools =
     [''get_balance'', ''transfer_money'', ''get_transactions'', ''simulate_transaction'',
      ''get_insights'']"

text \<open>The keys that the result of a tool can carry.\<close>

definition result_keys :: "string list" where
  "result_keys =
     [''success'', ''error'', ''account_id'', ''balance'', ''amount'', ''from_account'',
      ''to_account'', ''new_balance'', ''message'', ''transactions'', ''affordable'',
      ''current_balance'', ''projected_balance'', ''summary'']"

text \<open>
  A result dictionary is structured when it carries the success flag and, if the flag
  is false, an error text.
\<close>

definition structured_result :: "pydict \<Rightarrow> bool" where
  "structured_result r =
     (map_of r ''success'' = Some (PBool True) \<or>
      (map_of r ''success'' = Some (PBool False) \<and>
       (case map_of r ''error'' of Some (PStr m) \<Rightarrow> True | _ \<Rightarrow> False)))"

subsection \<open>The total of the ledger\<close>

text \<open>The sum of all account balances.\<close>

definition total_balance :: "database \<Rightarrow> real" where
  "total_balance db = sum_list (map acc_balance (accounts db))"

section \<open>Example data\<close>

text \<open>
  A runtime for evaluating the examples below, none of which reaches a runtime service
  whose answer matters, and the store that the \<open>setup\<close> command creates: one user with
  the accounts 1 and 2, holding 5000 and 2000.
\<close>

definition example_runtime :: runtime where
  "example_runtime =
     \<lparr>py_repr = (\<lambda>v. ''?''), text_numeric = (\<lambda>s. None),
      exc_text = (\<lambda>e. ''error''), iso_minus_days = (\<lambda>t d. Some t)\<rparr>"

definition demo_db :: database where
  "demo_db =
     \<lparr>accounts = [\<lparr>acc_id = 1, acc_user_id = 1, acc_balance = 5000\<rparr>,
                  \<lparr>acc_id = 2, acc_user_id = 1, acc_balance = 2000\<rparr>],
      transactions = [], tx_seq = 0\<rparr>"

section \<open>Properties of the ledger store\<close>

lemma sql_key_PInt: "sql_key rt (PInt a) = (if int64 a then Inr (Some a) else Inl OverflowError)"
  by (simp add: sql_key_def)

lemma find_update_row:
  "find (\<lambda>r. acc_id r = i) (map (\<lambda>r. if Some (acc_id r) = k then r\<lparr>acc_balance := b\<rparr> else r) rows) =
   map_option (\<lambda>r. if Some (acc_id r) = k then r\<lparr>acc_balance := b\<rparr> else r) (find (\<lambda>r. acc_id r = i) rows)"
  by (induction rows) auto

lemma select_balance_update:
  "select_balance (update_balance db b k) (Some i) =
     (if k = Some i then map_option (\<lambda>_. b) (select_balance db (Some i)) else select_balance db (Some i))"
proof (cases "find (\<lambda>r. acc_id r = i) (accounts db)")
  case None
  then show ?thesis by (simp add: select_balance_def update_balance_def find_update_row)
next
  case (Some r)
  then have "acc_id r = i" by (auto simp: find_Some_iff)
  with Some show ?thesis by (auto simp: select_balance_def update_balance_def find_update_row)
qed

lemma select_balance_insert [simp]:
  "select_balance (insert_transaction db acct typ amt ts) k = select_balance db k"
  by (cases k) (simp_all add: select_balance_def insert_transaction_def)

lemma transactions_update [simp]: "transactions (update_balance db b k) = transactions db"
  and tx_seq_update [simp]: "tx_seq (update_balance db b k) = tx_seq db"
  by (simp_all add: update_balance_def)

lemma select_balance_None_iff: "select_balance db (Some i) = None \<longleftrightarrow> i \<notin> acc_id ` set (accounts db)"
  by (auto simp: select_balance_def find_None_iff)

text \<open>The outcomes of \<open>transfer_money\<close>, one lemma for each way out of the \<open>try\<close> block.\<close>

lemma transfer_source_missing:
  "sql_key rt f = Inr fk \<Longrightarrow> select_balance db fk = None \<Longrightarrow>
   db_transfer_money rt now db f t amount =
     ((False, ''Source account '' @ py_str rt f @ '' not found''), db)"
  by (simp add: db_transfer_money_def transfer_try_def)

lemma transfer_destination_missing:
  "sql_key rt f = Inr fk \<Longrightarrow> select_balance db fk = Some fb \<Longrightarrow>
   sql_key rt t = Inr tk \<Longrightarrow> select_balance db tk = None \<Longrightarrow>
   db_transfer_money rt now db f t amount =
     ((False, ''Destination account '' @ py_str rt t @ '' not found''), db)"
  by (simp add: db_transfer_money_def transfer_try_def)

lemma transfer_insufficient:
  "sql_key rt f = Inr fk \<Longrightarrow> select_balance db fk = Some fb \<Longrightarrow>
   sql_key rt t = Inr tk \<Longrightarrow> select_balance db tk = Some tb \<Longrightarrow> fb < amount \<Longrightarrow>
   db_transfer_money rt now db f t amount =
     ((False, ''Insufficient balance. Available: $'' @ fmt_2f fb), db)"
  by (simp add: db_transfer_money_def transfer_try_def)

lemma transfer_committed:
  "sql_key rt f = Inr (Some i) \<Longrightarrow> select_balance db (Some i) = Some fb \<Longrightarrow>
   sql_key rt t = Inr (Some j) \<Longrightarrow> select_balance db (Some j) = Some tb \<Longrightarrow> \<not> fb < amount \<Longrightarrow>
   db_transfer_money rt now db f t amount =
     ((True, ''Successfully transferred $'' @ fmt_2f amount),
      insert_transaction
        (insert_transaction
           (update_balance (update_balance db (fb - amount) (Some i)) (tb + amount) (Some j))
           i ''debit'' amount now)
        j ''credit'' amount now)"
  by (simp add: db_transfer_money_def transfer_try_def Let_def)

lemma transfer_raises:
  "sql_key rt f = Inl e \<Longrightarrow>
   db_transfer_money rt now db f t amount = ((False, ''Transfer failed: '' @ exc_text rt e), db)"
  "sql_key rt f = Inr fk \<Longrightarrow> select_balance db fk = Some fb \<Longrightarrow> sql_key rt t = Inl e \<Longrightarrow>
   db_transfer_money rt now db f t amount = ((False, ''Transfer failed: '' @ exc_text rt e), db)"
  by (simp_all add: db_transfer_money_def transfer_try_def)

lemma select_balance_Some_key: "select_balance db k = Some x \<Longrightarrow> \<exists>i. k = Some i"
  by (cases k) (simp_all add: select_balance_def)

lemma transfer_success_cases:
  assumes ok: "fst (fst (db_transfer_money rt now db f t amount))"
  shows "\<exists>i j fb tb. sql_key rt f = Inr (Some i) \<and> select_balance db (Some i) = Some fb \<and>
           sql_key rt t = Inr (Some j) \<and> select_balance db (Some j) = Some tb \<and> \<not> fb < amount"
proof -
  obtain fk where fk: "sql_key rt f = Inr fk"
    using ok by (cases "sql_key rt f") (auto simp: transfer_raises)
  obtain fb where fb: "select_balance db fk = Some fb"
    using ok fk by (cases "select_balance db fk") (auto simp: transfer_source_missing)
  obtain tk where tk: "sql_key rt t = Inr tk"
    using ok fk fb by (cases "sql_key rt t") (auto simp: transfer_raises)
  obtain tb where tb: "select_balance db tk = Some tb"
    using ok fk fb tk by (cases "select_balance db tk") (auto simp: transfer_destination_missing)
  have le: "\<not> fb < amount"
    using ok fk fb tk tb by (auto simp: transfer_insufficient)
  obtain i j where "fk = Some i" "tk = Some j"
    using select_balance_Some_key [OF fb] select_balance_Some_key [OF tb] by blast
  with fk fb tk tb le show ?thesis by blast
qed

text \<open>
  C2. Every successful call of the store's transfer appends exactly two rows to the
  transaction log and touches no other row: a \<open>debit\<close> row on the source account and a
  \<open>credit\<close> row on the destination account, both with the transferred amount and the
  timestamp read by the call.
\<close>

theorem transfer_appends_debit_credit_pair:
  assumes "fst (fst (db_transfer_money rt now db (PInt a) (PInt b) amount))"
  shows "transactions (snd (db_transfer_money rt now db (PInt a) (PInt b) amount)) =
           transactions db @
             [\<lparr>tx_id = tx_seq db + 1, tx_account_id = a, tx_type = ''debit'',
               tx_amount = amount, tx_timestamp = now\<rparr>,
              \<lparr>tx_id = tx_seq db + 2, tx_account_id = b, tx_type = ''credit'',
               tx_amount = amount, tx_timestamp = now\<rparr>]"
proof -
  from transfer_success_cases [OF assms]
  obtain i j fb tb where h: "sql_key rt (PInt a) = Inr (Some i)" "select_balance db (Some i) = Some fb"
    "sql_key rt (PInt b) = Inr (Some j)" "select_balance db (Some j) = Some tb" "\<not> fb < amount"
    by blast
  from h(1) h(3) have "i = a" "j = b" by (auto simp: sql_key_PInt split: if_splits)
  with transfer_committed [OF h] show ?thesis
    by (simp add: insert_transaction_def)
qed

theorem transfer_appends_debit_credit_pair_witness:
  "fst (fst (db_transfer_money example_runtime ''2024-05-01T10:00:00'' demo_db (PInt 1) (PInt 2) 100)) \<and>
   transactions (snd (db_transfer_money example_runtime ''2024-05-01T10:00:00'' demo_db (PInt 1) (PInt 2) 100)) =
     [\<lparr>tx_id = 1, tx_account_id = 1, tx_type = ''debit'',
       tx_amount = 100, tx_timestamp = ''2024-05-01T10:00:00''\<rparr>,
      \<lparr>tx_id = 2, tx_account_id = 2, tx_type = ''credit'',
       tx_amount = 100, tx_timestamp = ''2024-05-01T10:00:00''\<rparr>]"
proof -
  have ok: "fst (fst (db_transfer_money example_runtime ''2024-05-01T10:00:00'' demo_db (PInt 1) (PInt 2) 100))"
    by (simp add: db_transfer_money_def transfer_try_def sql_key_def int64_def select_balance_def
          demo_db_def Let_def)
  show ?thesis
    using ok transfer_appends_debit_credit_pair [OF ok] by (simp add: demo_db_def)
qed

lemma get_balance_PInt:
  "db_get_account_balance rt db (PInt a) =
     (if int64 a then Inr (select_balance db (Some a)) else Inl OverflowError)"
  by (simp add: db_get_account_balance_def sql_key_PInt)

text \<open>
  After a successful transfer of an amount that is not negative (the operation library
  passes no other), the source balance is not negative.
\<close>

lemma transfer_keeps_source_nonnegative:
  assumes ok: "fst (fst (db_transfer_money rt now db (PInt a) (PInt b) amount))" and "0 \<le> amount"
  shows "\<exists>x. db_get_account_balance rt (snd (db_transfer_money rt now db (PInt a) (PInt b) amount)) (PInt a)
            = Inr (Some x) \<and> 0 \<le> x"
proof -
  from transfer_success_cases [OF ok]
  obtain i j fb tb where h: "sql_key rt (PInt a) = Inr (Some i)" "select_balance db (Some i) = Some fb"
    "sql_key rt (PInt b) = Inr (Some j)" "select_balance db (Some j) = Some tb" "\<not> fb < amount"
    by blast
  from h(1) h(3) have ij: "i = a" "j = b" "int64 a" by (auto simp: sql_key_PInt split: if_splits)
  from transfer_committed [OF h, of now] ij h(2) h(4) h(5) assms(2) show ?thesis
    by (auto simp: get_balance_PInt select_balance_update)
qed

text \<open>
  C3. A transfer that would overdraw the source, or that names a missing account, is
  refused: when the source or the destination account does not exist, or the source
  balance is less than the amount, the call returns the failure flag with a message
  that says why, and the store after the call (every balance, the whole transaction
  log) is the store before it.
\<close>

theorem transfer_refused_leaves_store:
  assumes "a \<notin> acc_id ` set (accounts db) \<or> b \<notin> acc_id ` set (accounts db) \<or>
           (\<exists>x. db_get_account_balance rt db (PInt a) = Inr (Some x) \<and> x < amount)"
  shows "fst (fst (db_transfer_money rt now db (PInt a) (PInt b) amount)) = False \<and>
         snd (fst (db_transfer_money rt now db (PInt a) (PInt b) amount)) \<in>
           {''Source account '' @ str_int a @ '' not found'',
            ''Destination account '' @ str_int b @ '' not found'',
            ''Insufficient balance. Available: $'' @
               fmt_2f (the (select_balance db (Some a))),
            ''Transfer failed: '' @ exc_text rt OverflowError} \<and>
         snd (db_transfer_money rt now db (PInt a) (PInt b) amount) = db"
proof (cases "int64 a")
  case False
  then show ?thesis by (simp add: transfer_raises(1) sql_key_PInt)
next
  case a: True
  show ?thesis
  proof (cases "select_balance db (Some a)")
    case None
    then show ?thesis using a by (simp add: transfer_source_missing sql_key_PInt)
  next
    case fb: (Some fb)
    show ?thesis
    proof (cases "int64 b")
      case False
      then show ?thesis using a fb by (simp add: transfer_raises(2) sql_key_PInt)
    next
      case b: True
      show ?thesis
      proof (cases "select_balance db (Some b)")
        case None
        then show ?thesis using a b fb by (simp add: transfer_destination_missing sql_key_PInt)
      next
        case tb: (Some tb)
        from assms fb tb a have "fb < amount"
          by (auto simp: select_balance_None_iff [symmetric] get_balance_PInt)
        then show ?thesis using a b fb tb by (simp add: transfer_insufficient sql_key_PInt)
      qed
    qed
  qed
qed

lemma demo_select_1: "select_balance demo_db (Some 1) = Some 5000"
  and demo_select_2: "select_balance demo_db (Some 2) = Some 2000"
  and demo_select_3: "select_balance demo_db (Some 3) = None"
  by (simp_all add: select_balance_def demo_db_def)

theorem transfer_refused_leaves_store_witness:
  "(\<exists>x. db_get_account_balance example_runtime demo_db (PInt 1) = Inr (Some x) \<and> x < 10000) \<and>
   fst (fst (db_transfer_money example_runtime ''2024-05-01T10:00:00'' demo_db (PInt 1) (PInt 2) 10000))
     = False \<and>
   snd (db_transfer_money example_runtime ''2024-05-01T10:00:00'' demo_db (PInt 1) (PInt 2) 10000)
     = demo_db"
proof -
  have h: "\<exists>x. db_get_account_balance example_runtime demo_db (PInt 1) = Inr (Some x) \<and> x < 10000"
    by (simp add: get_balance_PInt int64_def demo_select_1)
  then have "1 \<notin> acc_id ` set (accounts demo_db) \<or> 2 \<notin> acc_id ` set (accounts demo_db) \<or>
      (\<exists>x. db_get_account_balance example_runtime demo_db (PInt 1) = Inr (Some x) \<and> x < 10000)"
    by blast
  from transfer_refused_leaves_store [OF this, of "''2024-05-01T10:00:00''"] h
  show ?thesis by blast
qed

lemma get_balance_Some_iff:
  "db_get_account_balance rt db (PInt a) = Inr (Some x) \<longleftrightarrow> int64 a \<and> select_balance db (Some a) = Some x"
  by (simp add: get_balance_PInt)

lemma transactions_insert:
  "transactions (insert_transaction db acct typ amt ts) =
     transactions db @ [\<lparr>tx_id = tx_seq db + 1, tx_account_id = acct, tx_type = typ,
                          tx_amount = amt, tx_timestamp = ts\<rparr>]"
  and tx_seq_insert: "tx_seq (insert_transaction db acct typ amt ts) = tx_seq db + 1"
  by (simp_all add: insert_transaction_def)

text \<open>
  C9. A transfer from an existing account to itself, with a balance of at least the
  amount, succeeds; the second balance update is computed from the balance read before
  the first one and overwrites it, so the account ends with its original balance plus
  the amount; the log gains one debit row and one credit row, both on that account.
\<close>

theorem self_transfer_adds_amount:
  assumes "db_get_account_balance rt db (PInt a) = Inr (Some x)" and "amount \<le> x"
  shows "fst (db_transfer_money rt now db (PInt a) (PInt a) amount) =
           (True, ''Successfully transferred $'' @ fmt_2f amount) \<and>
         db_get_account_balance rt (snd (db_transfer_money rt now db (PInt a) (PInt a) amount)) (PInt a) =
           Inr (Some (x + amount)) \<and>
         transactions (snd (db_transfer_money rt now db (PInt a) (PInt a) amount)) =
           transactions db @
             [\<lparr>tx_id = tx_seq db + 1, tx_account_id = a, tx_type = ''debit'',
               tx_amount = amount, tx_timestamp = now\<rparr>,
              \<lparr>tx_id = tx_seq db + 2, tx_account_id = a, tx_type = ''credit'',
               tx_amount = amount, tx_timestamp = now\<rparr>]"
proof -
  from assms(1) have a: "sql_key rt (PInt a) = Inr (Some a)" "int64 a"
    and x: "select_balance db (Some a) = Some x"
    by (simp_all add: get_balance_Some_iff sql_key_PInt)
  from assms(2) have "\<not> x < amount" by simp
  from transfer_committed [OF a(1) x a(1) x this, of now] a(2) x show ?thesis
    by (simp add: get_balance_PInt select_balance_update transactions_insert tx_seq_insert)
qed

theorem self_transfer_adds_amount_witness:
  "db_get_account_balance example_runtime demo_db (PInt 1) = Inr (Some 5000) \<and> (100::real) \<le> 5000 \<and>
   fst (fst (db_transfer_money example_runtime ''2024-05-01T10:00:00'' demo_db (PInt 1) (PInt 1) 100)) \<and>
   db_get_account_balance example_runtime
     (snd (db_transfer_money example_runtime ''2024-05-01T10:00:00'' demo_db (PInt 1) (PInt 1) 100))
     (PInt 1) = Inr (Some 5100)"
proof -
  have h: "db_get_account_balance example_runtime demo_db (PInt 1) = Inr (Some 5000)"
    by (simp add: get_balance_PInt int64_def demo_select_1)
  have le: "(100::real) \<le> 5000" by simp
  from self_transfer_adds_amount [OF h le, of "''2024-05-01T10:00:00''"] h
  show ?thesis by simp
qed

text \<open>
  C10. A transfer of exactly the source's full balance between two distinct existing
  accounts succeeds (the insufficient-funds test is a strict less-than) and leaves the
  source balance at exactly zero.
\<close>

theorem transfer_full_balance_succeeds:
  assumes "a \<noteq> b"
    and "db_get_account_balance rt db (PInt a) = Inr (Some amount)"
    and "db_get_account_balance rt db (PInt b) = Inr (Some y)"
  shows "fst (db_transfer_money rt now db (PInt a) (PInt b) amount) =
           (True, ''Successfully transferred $'' @ fmt_2f amount) \<and>
         db_get_account_balance rt (snd (db_transfer_money rt now db (PInt a) (PInt b) amount)) (PInt a) =
           Inr (Some 0)"
proof -
  from assms(2) have a: "sql_key rt (PInt a) = Inr (Some a)" "int64 a"
    and x: "select_balance db (Some a) = Some amount"
    by (simp_all add: get_balance_Some_iff sql_key_PInt)
  from assms(3) have b: "sql_key rt (PInt b) = Inr (Some b)"
    and y: "select_balance db (Some b) = Some y"
    by (simp_all add: get_balance_Some_iff sql_key_PInt)
  have "\<not> amount < amount" by simp
  from transfer_committed [OF a(1) x b y this, of now] a(2) x assms(1) show ?thesis
    by (simp add: get_balance_PInt select_balance_update)
qed

theorem transfer_full_balance_succeeds_witness:
  "(1::int) \<noteq> 2 \<and>
   db_get_account_balance example_runtime demo_db (PInt 1) = Inr (Some 5000) \<and>
   db_get_account_balance example_runtime demo_db (PInt 2) = Inr (Some 2000) \<and>
   fst (fst (db_transfer_money example_runtime ''2024-05-01T10:00:00'' demo_db (PInt 1) (PInt 2) 5000)) \<and>
   db_get_account_balance example_runtime
     (snd (db_transfer_money example_runtime ''2024-05-01T10:00:00'' demo_db (PInt 1) (PInt 2) 5000))
     (PInt 1) = Inr (Some 0)"
proof -
  have n: "(1::int) \<noteq> 2" by simp
  have h1: "db_get_account_balance example_runtime demo_db (PInt 1) = Inr (Some 5000)"
    by (simp add: get_balance_PInt int64_def demo_select_1)
  have h2: "db_get_account_balance example_runtime demo_db (PInt 2) = Inr (Some 2000)"
    by (simp add: get_balance_PInt int64_def demo_select_2)
  from transfer_full_balance_succeeds [OF n h1 h2, of "''2024-05-01T10:00:00''"] h1 h2
  show ?thesis by simp
qed

section \<open>Conservation of the total balance\<close>

lemma total_update_absent:
  "i \<notin> acc_id ` set rows \<Longrightarrow>
   sum_list (map (\<lambda>r. acc_balance (if acc_id r = i then r\<lparr>acc_balance := b\<rparr> else r)) rows) =
   sum_list (map acc_balance rows)"
  by (induction rows) auto

lemma total_update_distinct:
  "distinct (map acc_id rows) \<Longrightarrow> find (\<lambda>r. acc_id r = i) rows = Some r0 \<Longrightarrow>
   sum_list (map (\<lambda>r. acc_balance (if acc_id r = i then r\<lparr>acc_balance := b\<rparr> else r)) rows)
     = sum_list (map acc_balance rows) - acc_balance r0 + b"
proof (induction rows)
  case Nil
  then show ?case by simp
next
  case (Cons r rows)
  show ?case
  proof (cases "acc_id r = i")
    case True
    with Cons.prems have "i \<notin> acc_id ` set rows" "r0 = r" by auto
    with True total_update_absent [of i rows b] show ?thesis by simp
  next
    case False
    with Cons show ?thesis by simp
  qed
qed

lemma total_balance_update:
  "distinct (map acc_id (accounts db)) \<Longrightarrow> select_balance db (Some i) = Some x \<Longrightarrow>
   total_balance (update_balance db b (Some i)) = total_balance db - x + b"
  by (auto simp: total_balance_def update_balance_def select_balance_def o_def total_update_distinct)

lemma accounts_insert [simp]: "accounts (insert_transaction db acct typ amt ts) = accounts db"
  by (simp add: insert_transaction_def)

lemma acc_ids_update [simp]: "map acc_id (accounts (update_balance db b k)) = map acc_id (accounts db)"
  by (simp add: update_balance_def comp_def)

lemma total_balance_insert [simp]:
  "total_balance (insert_transaction db acct typ amt ts) = total_balance db"
  by (simp add: total_balance_def)

text \<open>
  Between two different accounts of a store whose account ids are distinct (they are
  the primary key), a transfer keeps the total, whether it succeeds or fails. This is a
  statement of exact arithmetic; floating-point sums are rounded.
\<close>

lemma transfer_distinct_conserves_total:
  assumes d: "distinct (map acc_id (accounts db))" and ne: "a \<noteq> b"
  shows "total_balance (snd (db_transfer_money rt now db (PInt a) (PInt b) amount)) = total_balance db"
proof (cases "fst (fst (db_transfer_money rt now db (PInt a) (PInt b) amount))")
  case True
  from transfer_success_cases [OF True]
  obtain i j fb tb where h: "sql_key rt (PInt a) = Inr (Some i)" "select_balance db (Some i) = Some fb"
    "sql_key rt (PInt b) = Inr (Some j)" "select_balance db (Some j) = Some tb" "\<not> fb < amount"
    by blast
  from h(1) h(3) have ij: "i = a" "j = b" by (auto simp: sql_key_PInt split: if_splits)
  let ?db1 = "update_balance db (fb - amount) (Some i)"
  have 1: "total_balance ?db1 = total_balance db - fb + (fb - amount)"
    using d h(2) by (rule total_balance_update)
  have "select_balance ?db1 (Some j) = Some tb"
    using h(4) ij ne by (simp add: select_balance_update)
  moreover have "distinct (map acc_id (accounts ?db1))" using d by simp
  ultimately have 2: "total_balance (update_balance ?db1 (tb + amount) (Some j)) =
      total_balance ?db1 - tb + (tb + amount)"
    by (rule total_balance_update [rotated])
  from transfer_committed [OF h, of now] 1 2 show ?thesis by simp
next
  case False
  have "snd (db_transfer_money rt now db (PInt a) (PInt b) amount) = db"
    using False
    by (auto simp: db_transfer_money_def transfer_try_def Let_def split: sum.splits option.splits if_splits)
  then show ?thesis by simp
qed

text \<open>
  C1. The total of all balances should be the same before and after any call of the
  transfer. It is not when source and destination are the same account: on the store
  with accounts 1 (balance 5000) and 2 (balance 2000), transferring 100 from account 1
  to account 1 succeeds and raises the total from 7000 to 7100.
\<close>

theorem self_transfer_changes_total:
  "total_balance demo_db = 7000 \<and>
   fst (fst (db_transfer_money example_runtime ''2024-05-01T10:00:00'' demo_db (PInt 1) (PInt 1) 100)) \<and>
   total_balance (snd (db_transfer_money example_runtime ''2024-05-01T10:00:00'' demo_db (PInt 1) (PInt 1) 100))
     = 7100"
proof -
  have k: "sql_key example_runtime (PInt 1) = Inr (Some 1)"
    by (simp add: sql_key_PInt int64_def)
  have n: "\<not> (5000::real) < 100" by simp
  have t: "total_balance demo_db = 7000"
    by (simp add: total_balance_def demo_db_def)
  have "total_balance (update_balance (update_balance demo_db (5000 - 100) (Some 1)) (5000 + 100) (Some 1))
          = 7100"
    by (simp add: total_balance_def update_balance_def demo_db_def)
  with transfer_committed [OF k demo_select_1 k demo_select_1 n, of "''2024-05-01T10:00:00''"] t
  show ?thesis by simp
qed

section \<open>Properties of the operation library\<close>

text \<open>
  C5. The operation library's transfer refuses an amount that is zero or negative and
  an amount above 1,000,000, with a policy message, without calling the store and
  leaving the store as it was; every amount between the bounds (1,000,000 included) is
  handed to the store's transfer, whose result is returned.
\<close>

theorem ops_transfer_amount_limits:
  assumes "num_of amount = Some (Fin x)"
  shows "(x \<le> 0 \<longrightarrow>
            ops_transfer_money rt now db f t amount = Inr ((False, ''Amount must be positive''), db)) \<and>
         (1000000 < x \<longrightarrow>
            ops_transfer_money rt now db f t amount =
              Inr ((False, ''Amount exceeds maximum transfer limit''), db)) \<and>
         (0 < x \<and> x \<le> 1000000 \<longrightarrow>
            ops_transfer_money rt now db f t amount = Inr (db_transfer_money rt now db f t x))"
  using assms by (simp add: ops_transfer_money_def)

theorem ops_transfer_amount_limits_witness:
  "num_of (PInt 999999999) = Some (Fin 999999999) \<and>
   ops_transfer_money example_runtime ''2024-05-01T10:00:00'' demo_db (PInt 1) (PInt 2) (PInt 999999999) =
     Inr ((False, ''Amount exceeds maximum transfer limit''), demo_db) \<and>
   num_of (PFloat 0) = Some (Fin 0) \<and>
   ops_transfer_money example_runtime ''2024-05-01T10:00:00'' demo_db (PInt 1) (PInt 2) (PFloat 0) =
     Inr ((False, ''Amount must be positive''), demo_db) \<and>
   num_of (PFloat 100) = Some (Fin 100) \<and>
   ops_transfer_money example_runtime ''2024-05-01T10:00:00'' demo_db (PInt 1) (PInt 2) (PFloat 100) =
     Inr (db_transfer_money example_runtime ''2024-05-01T10:00:00'' demo_db (PInt 1) (PInt 2) 100)"
proof -
  have a: "num_of (PInt 999999999) = Some (Fin 999999999)" by simp
  have b: "num_of (PFloat 0) = Some (Fin 0)" by simp
  have c: "num_of (PFloat 100) = Some (Fin 100)" by simp
  from ops_transfer_amount_limits [OF a, of example_runtime "''2024-05-01T10:00:00''" demo_db "PInt 1" "PInt 2"]
    ops_transfer_amount_limits [OF b, of example_runtime "''2024-05-01T10:00:00''" demo_db "PInt 1" "PInt 2"]
    ops_transfer_amount_limits [OF c, of example_runtime "''2024-05-01T10:00:00''" demo_db "PInt 1" "PInt 2"]
  show ?thesis by simp
qed













section \<open>Properties of the plan executor\<close>

subsection \<open>Time periods\<close>

lemma parse_time_period_returns_elsewhere:
  assumes "\<forall>b. v \<noteq> PInf b"
    and "\<forall>s ds. v = PStr s \<and> first_digits s = Some ds \<longrightarrow> length ds \<le> max_str_digits"
  shows "\<exists>n. parse_time_period v = Inr n"
  using assms by (cases v) (auto split: option.splits)

lemma parse_time_period_long_digit_run:
  "first_digits s = Some ds \<Longrightarrow> max_str_digits < length ds \<Longrightarrow>
   parse_time_period (PStr s) = Inl ValueError"
  by simp

lemma parse_time_period_idempotent:
  "parse_time_period v = Inr n \<Longrightarrow> parse_time_period (PInt n) = Inr n"
  by simp

text \<open>
  C8. The normalisation of a time period should return an integer for every input.
  It returns one for every input but the two infinite floats and the texts whose first
  run of digits is longer than the interpreter converts, and is idempotent where it
  returns (the lemmas above); on the float \<open>inf\<close>, which the JSON decoder gives for
  the number \<open>1e999\<close>, the conversion \<open>int(time_period)\<close> raises \<open>OverflowError\<close>
  before the default of 30 is reached.
\<close>

theorem parse_time_period_raises_on_infinity:
  "parse_time_period (PInf True) = Inl OverflowError"
  by simp

subsection \<open>Steps without an account\<close>

lemma normalized_balance_check: "normalized_tool rt (PStr ''balance_check'') = PStr ''get_balance''"
  by (simp add: normalized_tool_def py_lower_def ascii_lower_def tool_mapping_def)

text \<open>
  C4 as stated fails: on the store with accounts 1 and 2, the step \<open>balance_check\<close>
  with an empty parameter map is answered with the failure \<open>account_id required\<close>.
\<close>

theorem balance_check_without_account_counterexample:
  "accounts demo_db \<noteq> [] \<and>
   execute_tool example_runtime ''2024-05-01T10:00:00'' demo_db (PStr ''balance_check'') (PDict []) =
     ([(''success'', PBool False), (''error'', PStr ''account_id required'')], demo_db)"
  by (simp add: execute_tool_def execute_tool_try_def normalized_balance_check exec_get_balance_def
        dget_def failure_def demo_db_def)

lemma execute_tool_get_balance:
  "tool_name \<noteq> PNone \<Longrightarrow> normalized_tool rt tool_name = PStr ''get_balance'' \<Longrightarrow>
   execute_tool rt now db tool_name parameters =
     (case exec_get_balance rt db parameters of
        (Inl e, db') \<Rightarrow> (failure (exc_text rt e), db') | (Inr result, db') \<Rightarrow> (result, db'))"
  by (simp add: execute_tool_def execute_tool_try_def)

lemma execute_tool_get_transactions:
  "tool_name \<noteq> PNone \<Longrightarrow> normalized_tool rt tool_name = PStr ''get_transactions'' \<Longrightarrow>
   execute_tool rt now db tool_name parameters =
     (case exec_get_transactions rt db parameters of
        (Inl e, db') \<Rightarrow> (failure (exc_text rt e), db') | (Inr result, db') \<Rightarrow> (result, db'))"
  by (simp add: execute_tool_def execute_tool_try_def)

lemma execute_tool_get_insights:
  "tool_name \<noteq> PNone \<Longrightarrow> normalized_tool rt tool_name = PStr ''get_insights'' \<Longrightarrow>
   execute_tool rt now db tool_name parameters =
     (case exec_get_insights rt now db parameters of
        (Inl e, db') \<Rightarrow> (failure (exc_text rt e), db') | (Inr result, db') \<Rightarrow> (result, db'))"
  by (simp add: execute_tool_def execute_tool_try_def)

lemma dget_update_same: "dget (AList.update k v d) k = v"
  and dget_default_update_other: "k' \<noteq> k \<Longrightarrow> dget_default (AList.update k v d) k' v0 = dget_default d k' v0"
  by (simp_all add: dget_def dget_default_def update_conv')

lemma exec_get_transactions_fallback:
  assumes "\<not> truthy (dget d ''account_id'')" and "accounts db = a # rest" and "acc_id a \<noteq> 0"
  shows "exec_get_transactions rt db (PDict d) =
         exec_get_transactions rt db (PDict (AList.update ''account_id'' (PInt (acc_id a)) d))"
  using assms
  by (simp add: exec_get_transactions_def get_default_account_id_def dget_update_same
        dget_default_update_other Let_def split: sum.splits)

lemma exec_get_insights_fallback:
  assumes "\<not> truthy (dget d ''account_id'')" and "accounts db = a # rest" and "acc_id a \<noteq> 0"
  shows "exec_get_insights rt now db (PDict d) =
         exec_get_insights rt now db (PDict (AList.update ''account_id'' (PInt (acc_id a)) d))"
  using assms
  by (simp add: exec_get_insights_def get_default_account_id_def dget_update_same
        dget_default_update_other Let_def split: sum.splits)

lemma execute_tool_transfer_money:
  "tool_name \<noteq> PNone \<Longrightarrow> normalized_tool rt tool_name = PStr ''transfer_money'' \<Longrightarrow>
   execute_tool rt now db tool_name parameters =
     (case exec_transfer_money rt now db parameters of
        (Inl e, db') \<Rightarrow> (failure (exc_text rt e), db') | (Inr result, db') \<Rightarrow> (result, db'))"
  by (simp add: execute_tool_def execute_tool_try_def)

lemma execute_tool_simulate_transaction:
  "tool_name \<noteq> PNone \<Longrightarrow> normalized_tool rt tool_name = PStr ''simulate_transaction'' \<Longrightarrow>
   execute_tool rt now db tool_name parameters =
     (case exec_simulate_transaction rt db parameters of
        (Inl e, db') \<Rightarrow> (failure (exc_text rt e), db') | (Inr result, db') \<Rightarrow> (result, db'))"
  by (simp add: execute_tool_def execute_tool_try_def)

text \<open>
  C4, amended. A step whose tool name resolves to the balance operation and that has no
  (or an empty) \<open>account_id\<close> is answered with the failure \<open>account_id required\<close>,
  whatever the store holds, and the store is left as it was. Nor do the transfer and
  the simulation fall back: a transfer step with neither \<open>account_id\<close> nor
  \<open>from_account\<close> and a simulation step without \<open>account_id\<close> are answered with
  \<open>Missing required parameters\<close>. The fallback to the first account in storage
  belongs to the transaction-history and the insights operations only: such a step
  without \<open>account_id\<close> runs exactly as the same step with \<open>account_id\<close> set to the
  id of the first account (when that id is not 0).
\<close>

theorem account_fallback_not_for_balance:
  assumes "tool_name \<noteq> PNone" and "\<not> truthy (dget d ''account_id'')"
  shows "(normalized_tool rt tool_name = PStr ''get_balance'' \<longrightarrow>
            execute_tool rt now db tool_name (PDict d) = (failure ''account_id required'', db)) \<and>
         (normalized_tool rt tool_name = PStr ''transfer_money'' \<and>
          \<not> truthy (dget d ''from_account'') \<longrightarrow>
            execute_tool rt now db tool_name (PDict d) = (failure ''Missing required parameters'', db)) \<and>
         (normalized_tool rt tool_name = PStr ''simulate_transaction'' \<longrightarrow>
            execute_tool rt now db tool_name (PDict d) = (failure ''Missing required parameters'', db)) \<and>
         ((normalized_tool rt tool_name = PStr ''get_transactions'' \<or>
           normalized_tool rt tool_name = PStr ''get_insights'') \<and>
          accounts db = a # rest \<and> acc_id a \<noteq> 0 \<longrightarrow>
            execute_tool rt now db tool_name (PDict d) =
            execute_tool rt now db tool_name (PDict (AList.update ''account_id'' (PInt (acc_id a)) d)))"
proof -
  have b: "normalized_tool rt tool_name = PStr ''get_balance'' \<longrightarrow>
            execute_tool rt now db tool_name (PDict d) = (failure ''account_id required'', db)"
    using assms by (simp add: execute_tool_get_balance exec_get_balance_def)
  have t: "normalized_tool rt tool_name = PStr ''transfer_money'' \<and>
          \<not> truthy (dget d ''from_account'') \<longrightarrow>
            execute_tool rt now db tool_name (PDict d) = (failure ''Missing required parameters'', db)"
    using assms by (simp add: execute_tool_transfer_money exec_transfer_money_def)
  have s: "normalized_tool rt tool_name = PStr ''simulate_transaction'' \<longrightarrow>
            execute_tool rt now db tool_name (PDict d) = (failure ''Missing required parameters'', db)"
    using assms by (simp add: execute_tool_simulate_transaction exec_simulate_transaction_def)
  have f: "(normalized_tool rt tool_name = PStr ''get_transactions'' \<or>
           normalized_tool rt tool_name = PStr ''get_insights'') \<and>
          accounts db = a # rest \<and> acc_id a \<noteq> 0 \<longrightarrow>
            execute_tool rt now db tool_name (PDict d) =
            execute_tool rt now db tool_name (PDict (AList.update ''account_id'' (PInt (acc_id a)) d))"
  proof (intro impI)
    assume h: "(normalized_tool rt tool_name = PStr ''get_transactions'' \<or>
           normalized_tool rt tool_name = PStr ''get_insights'') \<and>
          accounts db = a # rest \<and> acc_id a \<noteq> 0"
    then have acc: "accounts db = a # rest" "acc_id a \<noteq> 0" by simp_all
    from h consider "normalized_tool rt tool_name = PStr ''get_transactions''"
      | "normalized_tool rt tool_name = PStr ''get_insights''" by blast
    then show "execute_tool rt now db tool_name (PDict d) =
            execute_tool rt now db tool_name (PDict (AList.update ''account_id'' (PInt (acc_id a)) d))"
    proof cases
      case 1
      with assms(1) exec_get_transactions_fallback [OF assms(2) acc] show ?thesis
        by (simp add: execute_tool_get_transactions)
    next
      case 2
      with assms(1) exec_get_insights_fallback [OF assms(2) acc] show ?thesis
        by (simp add: execute_tool_get_insights)
    qed
  qed
  from b t s f show ?thesis by blast
qed

lemma normalized_recent_transactions:
  "normalized_tool rt (PStr ''recent_transactions'') = PStr ''get_transactions''"
  by (simp add: normalized_tool_def py_lower_def ascii_lower_def tool_mapping_def)

lemma normalized_what_if: "normalized_tool rt (PStr ''what_if'') = PStr ''simulate_transaction''"
  and normalized_transfer: "normalized_tool rt (PStr ''transfer'') = PStr ''transfer_money''"
  by (simp_all add: normalized_tool_def py_lower_def ascii_lower_def tool_mapping_def)

theorem account_fallback_not_for_balance_witness:
  "PStr ''balance_check'' \<noteq> PNone \<and> \<not> truthy (dget [] ''account_id'') \<and>
   normalized_tool example_runtime (PStr ''balance_check'') = PStr ''get_balance'' \<and>
   execute_tool example_runtime ''2024-05-01T10:00:00'' demo_db (PStr ''balance_check'') (PDict []) =
     (failure ''account_id required'', demo_db) \<and>
   PStr ''transfer'' \<noteq> PNone \<and> \<not> truthy (dget [] ''from_account'') \<and>
   normalized_tool example_runtime (PStr ''transfer'') = PStr ''transfer_money'' \<and>
   execute_tool example_runtime ''2024-05-01T10:00:00'' demo_db (PStr ''transfer'') (PDict []) =
     (failure ''Missing required parameters'', demo_db) \<and>
   PStr ''what_if'' \<noteq> PNone \<and>
   normalized_tool example_runtime (PStr ''what_if'') = PStr ''simulate_transaction'' \<and>
   execute_tool example_runtime ''2024-05-01T10:00:00'' demo_db (PStr ''what_if'') (PDict []) =
     (failure ''Missing required parameters'', demo_db) \<and>
   PStr ''recent_transactions'' \<noteq> PNone \<and>
   normalized_tool example_runtime (PStr ''recent_transactions'') = PStr ''get_transactions'' \<and>
   accounts demo_db =
     \<lparr>acc_id = 1, acc_user_id = 1, acc_balance = 5000\<rparr> #
     [\<lparr>acc_id = 2, acc_user_id = 1, acc_balance = 2000\<rparr>] \<and>
   execute_tool example_runtime ''2024-05-01T10:00:00'' demo_db (PStr ''recent_transactions'') (PDict []) =
     ([(''success'', PBool True), (''transactions'', PList []), (''account_id'', PInt 1)], demo_db)"
proof -
  have t1: "PStr ''balance_check'' \<noteq> PNone" and t2: "PStr ''recent_transactions'' \<noteq> PNone"
    and t3: "PStr ''transfer'' \<noteq> PNone" and t4: "PStr ''what_if'' \<noteq> PNone"
    by simp_all
  have n: "\<not> truthy (dget [] ''account_id'')" and nf: "\<not> truthy (dget [] ''from_account'')"
    by (simp_all add: dget_def)
  have acc: "accounts demo_db =
     \<lparr>acc_id = 1, acc_user_id = 1, acc_balance = 5000\<rparr> #
     [\<lparr>acc_id = 2, acc_user_id = 1, acc_balance = 2000\<rparr>]"
    by (simp add: demo_db_def)
  have run: "execute_tool example_runtime ''2024-05-01T10:00:00'' demo_db (PStr ''recent_transactions'')
               (PDict (AList.update ''account_id'' (PInt 1) [])) =
     ([(''success'', PBool True), (''transactions'', PList []), (''account_id'', PInt 1)], demo_db)"
    by (simp add: execute_tool_get_transactions normalized_recent_transactions
          exec_get_transactions_def dget_def dget_default_def ops_get_recent_transactions_def
          db_get_recent_transactions_def order_by_timestamp_desc_def sql_key_PInt int64_def
          demo_db_def)
  from account_fallback_not_for_balance [OF t1 n, where rt = example_runtime
      and now = "''2024-05-01T10:00:00''" and db = demo_db and a = "\<lparr>acc_id = 1, acc_user_id = 1, acc_balance = 5000\<rparr>" and rest = "[]"]
  have b: "execute_tool example_runtime ''2024-05-01T10:00:00'' demo_db (PStr ''balance_check'') (PDict []) =
     (failure ''account_id required'', demo_db)"
    by (simp add: normalized_balance_check)
  from account_fallback_not_for_balance [OF t3 n, where rt = example_runtime
      and now = "''2024-05-01T10:00:00''" and db = demo_db and a = "\<lparr>acc_id = 1, acc_user_id = 1, acc_balance = 5000\<rparr>" and rest = "[]"] nf
  have tr: "execute_tool example_runtime ''2024-05-01T10:00:00'' demo_db (PStr ''transfer'') (PDict []) =
     (failure ''Missing required parameters'', demo_db)"
    by (simp add: normalized_transfer)
  from account_fallback_not_for_balance [OF t4 n, where rt = example_runtime
      and now = "''2024-05-01T10:00:00''" and db = demo_db and a = "\<lparr>acc_id = 1, acc_user_id = 1, acc_balance = 5000\<rparr>" and rest = "[]"]
  have si: "execute_tool example_runtime ''2024-05-01T10:00:00'' demo_db (PStr ''what_if'') (PDict []) =
     (failure ''Missing required parameters'', demo_db)"
    by (simp add: normalized_what_if)
  from account_fallback_not_for_balance [OF t2 n, where rt = example_runtime
      and now = "''2024-05-01T10:00:00''" and db = demo_db
      and a = "\<lparr>acc_id = 1, acc_user_id = 1, acc_balance = 5000\<rparr>"
      and rest = "[\<lparr>acc_id = 2, acc_user_id = 1, acc_balance = 2000\<rparr>]"] acc run
  have r: "execute_tool example_runtime ''2024-05-01T10:00:00'' demo_db (PStr ''recent_transactions'') (PDict []) =
     ([(''success'', PBool True), (''transactions'', PList []), (''account_id'', PInt 1)], demo_db)"
    by (simp add: normalized_recent_transactions)
  from t1 t2 t3 t4 n nf acc b tr si r show ?thesis
    by (simp add: normalized_balance_check normalized_recent_transactions normalized_what_if
          normalized_transfer)
qed

subsection \<open>Results of the dispatched branches\<close>

lemma structured_failure [simp]: "structured_result (failure msg)"
  by (simp add: structured_result_def failure_def)

lemma map_of_dict_update_other:
  "k \<notin> fst ` set other \<Longrightarrow> map_of (dict_update d other) k = map_of d k"
  unfolding dict_update_def
  by (induction other arbitrary: d) (auto simp: update_conv')

lemma simulate_result_keys:
  assumes "ops_simulate_transaction rt db a amount = Inr (result, db')"
  shows "''success'' \<notin> fst ` set result"
proof (cases "ops_get_balance rt db a")
  case (Inl e)
  with assms show ?thesis by (simp add: ops_simulate_transaction_def)
next
  case (Inr p)
  obtain cur err where p: "p = (cur, err)" by (cases p)
  show ?thesis
  proof (cases "case err of None \<Rightarrow> False | Some m \<Rightarrow> m \<noteq> []")
    case True
    with assms Inr p show ?thesis
      by (cases "py_neg amount") (auto simp: ops_simulate_transaction_def)
  next
    case False
    show ?thesis
    proof (cases cur)
      case None
      with assms Inr p False show ?thesis by (simp add: ops_simulate_transaction_def)
    next
      case (Some cb)
      with assms Inr p False show ?thesis
        by (cases "float_sub cb amount") (auto simp: ops_simulate_transaction_def)
    qed
  qed
qed

lemma exec_get_balance_structured:
  "exec_get_balance rt db parameters = (Inr result, db') \<Longrightarrow> structured_result result"
  by (auto simp: exec_get_balance_def Let_def structured_result_def failure_def
      split: pyval.splits sum.splits prod.splits if_splits)

lemma exec_transfer_money_structured:
  "exec_transfer_money rt now db parameters = (Inr result, db') \<Longrightarrow> structured_result result"
  by (auto simp: exec_transfer_money_def Let_def structured_result_def failure_def
      split: pyval.splits sum.splits prod.splits if_splits)

lemma exec_get_transactions_structured:
  "exec_get_transactions rt db parameters = (Inr result, db') \<Longrightarrow> structured_result result"
  by (auto simp: exec_get_transactions_def Let_def structured_result_def failure_def
      split: pyval.splits sum.splits prod.splits if_splits)

lemma exec_simulate_transaction_structured:
  "exec_simulate_transaction rt db parameters = (Inr result, db') \<Longrightarrow> structured_result result"
  by (auto simp: exec_simulate_transaction_def Let_def structured_result_def failure_def
        map_of_dict_update_other dest!: simulate_result_keys
      split: pyval.splits sum.splits prod.splits if_splits)

lemma exec_get_insights_structured:
  "exec_get_insights rt now db parameters = (Inr result, db') \<Longrightarrow> structured_result result"
  by (auto simp: exec_get_insights_def Let_def structured_result_def failure_def
      split: pyval.splits sum.splits prod.splits if_splits)

lemma execute_tool_try_structured:
  "execute_tool_try rt now db tool_name normalized parameters = (Inr result, db') \<Longrightarrow>
   structured_result result"
  by (auto simp: execute_tool_try_def exec_get_balance_structured exec_transfer_money_structured
        exec_get_transactions_structured exec_simulate_transaction_structured
        exec_get_insights_structured split: if_splits)

lemma execute_tool_structured: "structured_result (fst (execute_tool rt now db tool_name parameters))"
proof (cases "tool_name = PNone")
  case True
  then show ?thesis by (simp add: execute_tool_def)
next
  case False
  obtain r db' where t: "execute_tool_try rt now db tool_name (normalized_tool rt tool_name) parameters = (r, db')"
    by (cases "execute_tool_try rt now db tool_name (normalized_tool rt tool_name) parameters")
  show ?thesis
  proof (cases r)
    case (Inl e)
    with False t show ?thesis by (simp add: execute_tool_def)
  next
    case (Inr result)
    with False t execute_tool_try_structured [of rt now db tool_name _ parameters result db']
    show ?thesis by (simp add: execute_tool_def)
  qed
qed

subsection \<open>The loop over the steps\<close>

lemma keys_dict_update: "fst ` set (dict_update d other) = fst ` set d \<union> fst ` set other"
  unfolding dict_update_def
proof (induction other arbitrary: d)
  case Nil
  then show ?case by simp
next
  case (Cons p other)
  obtain k v where p: "p = (k, v)" by (cases p)
  have "fst ` set (fold (\<lambda>(k, v). AList.update k v) other (AList.update k v d)) =
          fst ` set (AList.update k v d) \<union> fst ` set other"
    by (rule Cons)
  also have "\<dots> = ({k} \<union> fst ` set d) \<union> fst ` set other"
    by (simp only: dom_update)
  finally show ?case unfolding p by simp
qed

lemma execute_steps_keys:
  "fst ` set all_results \<union> step_key rt ` set steps \<subseteq>
     fst ` set (fst (execute_steps rt clock n db all_results steps))"
proof (induction steps arbitrary: n db all_results)
  case Nil
  then show ?case by simp
next
  case (Cons step steps)
  show ?case
  proof (cases "truthy (dget step ''tool'')")
    case False
    with Cons [of "AList.update (step_key rt step)
        (PDict (failure ''Tool name is missing from plan step'')) all_results" "Suc n" db]
    show ?thesis by (auto simp: dom_update)
  next
    case True
    obtain result db' where r: "execute_tool rt (clock n) db (dget step ''tool'')
        (dget_default step ''parameters'' (PDict [])) = (result, db')"
      by (cases "execute_tool rt (clock n) db (dget step ''tool'')
        (dget_default step ''parameters'' (PDict []))")
    with True Cons [of "dict_update (AList.update (step_key rt step) (PDict result) all_results) result"
        "Suc n" db']
    show ?thesis by (auto simp: dom_update keys_dict_update)
  qed
qed

lemma execute_steps_append:
  "execute_steps rt clock n db all_results (pre @ post) =
     (case execute_steps rt clock n db all_results pre of
        (all_results', db') \<Rightarrow> execute_steps rt clock (n + length pre) db' all_results' post)"
proof (induction pre arbitrary: n db all_results)
  case Nil
  then show ?case by simp
next
  case (Cons step pre)
  show ?case
  proof (cases "truthy (dget step ''tool'')")
    case False
    then show ?thesis by (simp add: Cons)
  next
    case True
    then show ?thesis by (simp add: Cons split: prod.splits)
  qed
qed

lemma tool_mapping_canonical: "snd ` set tool_mapping = set canonical_tools"
  by (auto simp: tool_mapping_def canonical_tools_def)

lemma execute_tool_unknown:
  assumes "tool_name \<noteq> PNone" and "normalized_tool rt tool_name \<notin> PStr ` set canonical_tools"
  shows "execute_tool rt now db tool_name parameters =
           (failure (''Unknown tool: '' @ py_str rt tool_name @
                     '' (normalized: '' @ py_str rt (normalized_tool rt tool_name) @ '')''), db)"
  using assms by (auto simp: execute_tool_def execute_tool_try_def canonical_tools_def)

lemma truthy_not_None: "truthy v \<Longrightarrow> v \<noteq> PNone"
  by auto

lemma execute_steps_unknown:
  assumes "truthy (dget step ''tool'')"
    and "normalized_tool rt (dget step ''tool'') \<notin> PStr ` set canonical_tools"
  shows "execute_steps rt clock n db all_results (step # steps) =
           execute_steps rt clock (Suc n) db
             (dict_update
                (AList.update (step_key rt step)
                   (PDict (failure (''Unknown tool: '' @ py_str rt (dget step ''tool'') @
                      '' (normalized: '' @ py_str rt (normalized_tool rt (dget step ''tool'')) @ '')'')))
                   all_results)
                (failure (''Unknown tool: '' @ py_str rt (dget step ''tool'') @
                      '' (normalized: '' @ py_str rt (normalized_tool rt (dget step ''tool'')) @ '')'')))
             steps"
  using assms execute_tool_unknown [OF truthy_not_None [OF assms(1)] assms(2)]
  by (simp add: Let_def)

subsection \<open>The entry of a step in the combined result\<close>

lemma simulate_result_key_set:
  assumes "ops_simulate_transaction rt db a amount = Inr (result, db')"
  shows "fst ` set result \<subseteq> set result_keys"
proof (cases "ops_get_balance rt db a")
  case (Inl e)
  with assms show ?thesis by (simp add: ops_simulate_transaction_def)
next
  case (Inr p)
  obtain cur err where p: "p = (cur, err)" by (cases p)
  show ?thesis
  proof (cases "case err of None \<Rightarrow> False | Some m \<Rightarrow> m \<noteq> []")
    case True
    with assms Inr p show ?thesis
      by (cases "py_neg amount") (auto simp: ops_simulate_transaction_def result_keys_def)
  next
    case False
    show ?thesis
    proof (cases cur)
      case None
      with assms Inr p False show ?thesis by (simp add: ops_simulate_transaction_def)
    next
      case (Some cb)
      with assms Inr p False show ?thesis
        by (cases "float_sub cb amount") (auto simp: ops_simulate_transaction_def result_keys_def)
    qed
  qed
qed

lemma failure_keys: "fst ` set (failure msg) \<subseteq> set result_keys"
  by (simp add: failure_def result_keys_def)

lemma exec_get_balance_keys:
  "exec_get_balance rt db parameters = (Inr result, db') \<Longrightarrow> fst ` set result \<subseteq> set result_keys"
  by (auto simp: exec_get_balance_def Let_def failure_def result_keys_def
      split: pyval.splits sum.splits prod.splits if_splits)

lemma exec_transfer_money_keys:
  "exec_transfer_money rt now db parameters = (Inr result, db') \<Longrightarrow>
   fst ` set result \<subseteq> set result_keys"
  by (auto simp: exec_transfer_money_def Let_def failure_def result_keys_def
      split: pyval.splits sum.splits prod.splits if_splits)

lemma exec_get_transactions_keys:
  "exec_get_transactions rt db parameters = (Inr result, db') \<Longrightarrow>
   fst ` set result \<subseteq> set result_keys"
  by (auto simp: exec_get_transactions_def Let_def failure_def result_keys_def
      split: pyval.splits sum.splits prod.splits if_splits)

lemma exec_simulate_transaction_keys:
  assumes "exec_simulate_transaction rt db parameters = (Inr result, db')"
  shows "fst ` set result \<subseteq> set result_keys"
proof (cases parameters)
  case (PDict d)
  show ?thesis
  proof (cases "truthy (dget d ''account_id'') \<and> truthy (dget d ''amount'')")
    case False
    with assms PDict have "result = failure ''Missing required parameters''"
      by (auto simp: exec_simulate_transaction_def Let_def)
    then show ?thesis by (simp add: failure_keys)
  next
    case True
    with assms PDict obtain r where r: "ops_simulate_transaction rt db (dget d ''account_id'') (dget d ''amount'') = Inr (r, db')"
      and res: "result = dict_update [(''success'', PBool True)] r"
      by (auto simp: exec_simulate_transaction_def Let_def split: sum.splits prod.splits)
    from simulate_result_key_set [OF r] res show ?thesis
      by (auto simp: keys_dict_update result_keys_def)
  qed
qed (use assms in \<open>simp_all add: exec_simulate_transaction_def\<close>)

lemma exec_get_insights_keys:
  "exec_get_insights rt now db parameters = (Inr result, db') \<Longrightarrow>
   fst ` set result \<subseteq> set result_keys"
  by (auto simp: exec_get_insights_def Let_def failure_def result_keys_def
      split: pyval.splits sum.splits prod.splits if_splits)

lemma execute_tool_try_keys:
  "execute_tool_try rt now db tool_name normalized parameters = (Inr result, db') \<Longrightarrow>
   fst ` set result \<subseteq> set result_keys"
proof -
  assume t: "execute_tool_try rt now db tool_name normalized parameters = (Inr result, db')"
  consider "normalized = PStr ''get_balance''" | "normalized = PStr ''transfer_money''"
    | "normalized = PStr ''get_transactions''" | "normalized = PStr ''simulate_transaction''"
    | "normalized = PStr ''get_insights''"
    | "normalized \<notin> PStr ` set canonical_tools"
    by (auto simp: canonical_tools_def)
  then show ?thesis
  proof cases
    case 1
    with t show ?thesis by (simp add: execute_tool_try_def exec_get_balance_keys)
  next
    case 2
    with t show ?thesis by (simp add: execute_tool_try_def exec_transfer_money_keys)
  next
    case 3
    with t show ?thesis by (simp add: execute_tool_try_def exec_get_transactions_keys)
  next
    case 4
    with t show ?thesis by (simp add: execute_tool_try_def exec_simulate_transaction_keys)
  next
    case 5
    with t show ?thesis by (simp add: execute_tool_try_def exec_get_insights_keys)
  next
    case 6
    with t have "\<exists>msg. result = failure msg"
      by (auto simp: execute_tool_try_def canonical_tools_def)
    then show ?thesis using failure_keys by blast
  qed
qed

lemma execute_tool_keys:
  "fst ` set (fst (execute_tool rt now db tool_name parameters)) \<subseteq> set result_keys"
proof (cases "tool_name = PNone")
  case True
  then show ?thesis by (simp add: execute_tool_def failure_keys)
next
  case False
  obtain r db' where t: "execute_tool_try rt now db tool_name (normalized_tool rt tool_name) parameters = (r, db')"
    by (cases "execute_tool_try rt now db tool_name (normalized_tool rt tool_name) parameters")
  show ?thesis
  proof (cases r)
    case (Inl e)
    with False t show ?thesis by (simp add: execute_tool_def failure_keys)
  next
    case (Inr result)
    with False t execute_tool_try_keys [of rt now db tool_name _ parameters result db']
    show ?thesis by (simp add: execute_tool_def)
  qed
qed

lemma step_key_not_result_key: "step_key rt step \<notin> set result_keys"
  by (simp add: step_key_def result_keys_def)

lemma map_of_merge_result:
  assumes "k \<notin> set result_keys"
  shows "map_of (dict_update d (fst (execute_tool rt now db tool_name parameters))) k = map_of d k"
  using assms execute_tool_keys [of rt now db tool_name parameters]
  by (intro map_of_dict_update_other) blast

lemma execute_steps_keeps_entry:
  assumes "k \<notin> step_key rt ` set steps" and "k \<notin> set result_keys"
  shows "map_of (fst (execute_steps rt clock n db all_results steps)) k = map_of all_results k"
  using assms
proof (induction steps arbitrary: n db all_results)
  case Nil
  then show ?case by simp
next
  case (Cons step steps)
  from Cons.prems have k: "k \<noteq> step_key rt step" "k \<notin> step_key rt ` set steps" by auto
  show ?case
  proof (cases "truthy (dget step ''tool'')")
    case False
    with Cons.IH [OF k(2) Cons.prems(2)] k(1) show ?thesis
      by (simp add: update_conv')
  next
    case True
    obtain result db' where r: "execute_tool rt (clock n) db (dget step ''tool'')
        (dget_default step ''parameters'' (PDict [])) = (result, db')"
      by (cases "execute_tool rt (clock n) db (dget step ''tool'')
        (dget_default step ''parameters'' (PDict []))")
    from map_of_merge_result [OF Cons.prems(2), of _ rt "clock n" db "dget step ''tool''"
        "dget_default step ''parameters'' (PDict [])"] r
    have m: "\<And>d. map_of (dict_update d result) k = map_of d k" by simp
    from True r Cons.IH [OF k(2) Cons.prems(2)] k(1) m show ?thesis
      by (simp add: update_conv')
  qed
qed

lemma execute_steps_entry_of_first:
  assumes "truthy (dget step ''tool'')" and "step_key rt step \<notin> step_key rt ` set post"
  shows "map_of (fst (execute_steps rt clock n db all_results (step # post))) (step_key rt step) =
         Some (PDict (fst (execute_tool rt (clock n) db (dget step ''tool'')
                             (dget_default step ''parameters'' (PDict [])))))"
proof -
  obtain result db' where r: "execute_tool rt (clock n) db (dget step ''tool'')
        (dget_default step ''parameters'' (PDict [])) = (result, db')"
    by (cases "execute_tool rt (clock n) db (dget step ''tool'')
        (dget_default step ''parameters'' (PDict []))")
  from map_of_merge_result [OF step_key_not_result_key, of _ rt "clock n" db "dget step ''tool''"
      "dget_default step ''parameters'' (PDict [])" rt step] r
  have m: "\<And>d. map_of (dict_update d result) (step_key rt step) = map_of d (step_key rt step)"
    by simp
  from assms(1) r
    execute_steps_keeps_entry [OF assms(2) step_key_not_result_key, of clock "Suc n" db'
      "dict_update (AList.update (step_key rt step) (PDict result) all_results) result"]
    m
  show ?thesis by (simp add: update_conv')
qed

lemma execute_steps_entry:
  assumes "truthy (dget step ''tool'')" and "step_key rt step \<notin> step_key rt ` set post"
  shows "map_of (fst (execute_steps rt clock n db all_results (pre @ step # post))) (step_key rt step) =
         Some (PDict (fst (execute_tool rt (clock (n + length pre))
                             (snd (execute_steps rt clock n db all_results pre))
                             (dget step ''tool'') (dget_default step ''parameters'' (PDict [])))))"
proof -
  obtain res1 db1 where p: "execute_steps rt clock n db all_results pre = (res1, db1)"
    by (cases "execute_steps rt clock n db all_results pre")
  from execute_steps_entry_of_first [OF assms, of clock "n + length pre" db1 res1] p
  show ?thesis by (simp add: execute_steps_append)
qed

lemma execute_steps_failed_prefix_store:
  assumes "\<forall>s \<in> set pre. \<not> truthy (dget s ''tool'') \<or>
             normalized_tool rt (dget s ''tool'') \<notin> PStr ` set canonical_tools"
  shows "snd (execute_steps rt clock n db all_results pre) = db"
  using assms
proof (induction pre arbitrary: n all_results)
  case Nil
  then show ?case by simp
next
  case (Cons step pre)
  then have rest: "\<forall>s \<in> set pre. \<not> truthy (dget s ''tool'') \<or>
             normalized_tool rt (dget s ''tool'') \<notin> PStr ` set canonical_tools"
    by simp
  show ?case
  proof (cases "truthy (dget step ''tool'')")
    case False
    with Cons.IH [OF rest] show ?thesis by simp
  next
    case True
    with Cons.prems have "normalized_tool rt (dget step ''tool'') \<notin> PStr ` set canonical_tools"
      by simp
    from execute_steps_unknown [OF True this] Cons.IH [OF rest] show ?thesis by simp
  qed
qed

lemma execute_steps_store_after_last:
  "snd (execute_steps rt clock n db all_results (pre @ [step])) =
     (if truthy (dget step ''tool'')
      then snd (execute_tool rt (clock (n + length pre)) (snd (execute_steps rt clock n db all_results pre))
                  (dget step ''tool'') (dget_default step ''parameters'' (PDict [])))
      else snd (execute_steps rt clock n db all_results pre))"
  by (simp add: execute_steps_append split: prod.splits)

text \<open>
  C7. A step whose tool name does not resolve to one of the five canonical operations
  gets the result \<open>{success: False, error}\<close>, where the error text holds the tool name
  as given and the normalised name, and the store is not touched. For every tool name and
  every value of the parameters the executor returns a structured result: an exception
  raised while a tool runs is turned into a failure result. A plan is run to its end
  whatever the steps return: every step has its entry in the combined result; the entry
  of a step (one with a tool name, whose step id no later step repeats) is the result of
  \<open>_execute_tool\<close> on that step, run on the store that the steps before it left; and
  steps that fail on an unknown or a missing tool name leave the store as it was, so the
  step after them runs as if it were the first. The store after a plan is the store that
  \<open>_execute_tool\<close> leaves on its last step, run on the store of the plan before it (a
  last step without a tool name changes nothing).
\<close>

theorem unknown_tool_fails_without_stopping_plan:
  "(tool_name \<noteq> PNone \<and> normalized_tool rt tool_name \<notin> PStr ` set canonical_tools \<longrightarrow>
      execute_tool rt now db tool_name parameters =
        ([(''success'', PBool False),
          (''error'', PStr (''Unknown tool: '' @ py_str rt tool_name @
                           '' (normalized: '' @ py_str rt (normalized_tool rt tool_name) @ '')''))],
         db)) \<and>
   structured_result (fst (execute_tool rt now db tool_name parameters)) \<and>
   (\<forall>s \<in> set steps. step_key rt s \<in> fst ` set (fst (execute_plan rt clock db steps))) \<and>
   (truthy (dget step ''tool'') \<and> step_key rt step \<notin> step_key rt ` set post \<longrightarrow>
      map_of (fst (execute_plan rt clock db (pre @ step # post))) (step_key rt step) =
        Some (PDict (fst (execute_tool rt (clock (length pre)) (snd (execute_plan rt clock db pre))
                            (dget step ''tool'') (dget_default step ''parameters'' (PDict [])))))) \<and>
   ((\<forall>s \<in> set pre. \<not> truthy (dget s ''tool'') \<or>
        normalized_tool rt (dget s ''tool'') \<notin> PStr ` set canonical_tools) \<longrightarrow>
      snd (execute_plan rt clock db pre) = db) \<and>
   snd (execute_plan rt clock db (pre @ [step])) =
     (if truthy (dget step ''tool'')
      then snd (execute_tool rt (clock (length pre)) (snd (execute_plan rt clock db pre))
                  (dget step ''tool'') (dget_default step ''parameters'' (PDict [])))
      else snd (execute_plan rt clock db pre)) \<and>
   execute_plan rt clock db [] = ([], db)"
proof -
  have a: "tool_name \<noteq> PNone \<and> normalized_tool rt tool_name \<notin> PStr ` set canonical_tools \<longrightarrow>
      execute_tool rt now db tool_name parameters =
        ([(''success'', PBool False),
          (''error'', PStr (''Unknown tool: '' @ py_str rt tool_name @
                           '' (normalized: '' @ py_str rt (normalized_tool rt tool_name) @ '')''))],
         db)"
    using execute_tool_unknown [of tool_name rt now db parameters] by (simp add: failure_def)
  have c: "\<forall>s \<in> set steps. step_key rt s \<in> fst ` set (fst (execute_plan rt clock db steps))"
    using execute_steps_keys [of "[]" rt steps clock 0 db] by (auto simp: execute_plan_def)
  have d: "truthy (dget step ''tool'') \<and> step_key rt step \<notin> step_key rt ` set post \<longrightarrow>
      map_of (fst (execute_plan rt clock db (pre @ step # post))) (step_key rt step) =
        Some (PDict (fst (execute_tool rt (clock (length pre)) (snd (execute_plan rt clock db pre))
                            (dget step ''tool'') (dget_default step ''parameters'' (PDict [])))))"
    using execute_steps_entry [of step rt post clock 0 db "[]" pre] by (simp add: execute_plan_def)
  have e: "(\<forall>s \<in> set pre. \<not> truthy (dget s ''tool'') \<or>
        normalized_tool rt (dget s ''tool'') \<notin> PStr ` set canonical_tools) \<longrightarrow>
      snd (execute_plan rt clock db pre) = db"
    using execute_steps_failed_prefix_store [of pre rt clock 0 db "[]"] by (simp add: execute_plan_def)
  have f: "snd (execute_plan rt clock db (pre @ [step])) =
     (if truthy (dget step ''tool'')
      then snd (execute_tool rt (clock (length pre)) (snd (execute_plan rt clock db pre))
                  (dget step ''tool'') (dget_default step ''parameters'' (PDict [])))
      else snd (execute_plan rt clock db pre))"
    using execute_steps_store_after_last [of rt clock 0 db "[]" pre step]
    by (simp add: execute_plan_def)
  have g: "execute_plan rt clock db [] = ([], db)"
    by (simp add: execute_plan_def)
  from a execute_tool_structured c d e f g show ?thesis by blast
qed

lemma normalized_frobnicate:
  "normalized_tool rt (PStr ''Frobnicate'') = PStr ''Frobnicate''"
  by (simp add: normalized_tool_def py_lower_def ascii_lower_def tool_mapping_def)

lemma normalized_check_balance:
  "normalized_tool rt (PStr ''check_balance'') = PStr ''get_balance''"
  by (simp add: normalized_tool_def py_lower_def ascii_lower_def tool_mapping_def)

theorem unknown_tool_fails_without_stopping_plan_witness:
  "PStr ''Frobnicate'' \<noteq> PNone \<and>
   normalized_tool example_runtime (PStr ''Frobnicate'') \<notin> PStr ` set canonical_tools \<and>
   execute_tool example_runtime ''2024-05-01T10:00:00'' demo_db (PStr ''Frobnicate'') (PDict []) =
     ([(''success'', PBool False),
       (''error'', PStr ''Unknown tool: Frobnicate (normalized: Frobnicate)'')], demo_db) \<and>
   ''step_a'' \<in>
     fst ` set (fst (execute_plan example_runtime (\<lambda>n. ''2024-05-01T10:00:00'') demo_db
       [[(''step_id'', PStr ''a''), (''tool'', PStr ''Frobnicate'')],
        [(''step_id'', PStr ''b''), (''tool'', PStr ''check_balance''),
         (''parameters'', PDict [(''account_id'', PInt 2)])]])) \<and>
   truthy (dget [(''step_id'', PStr ''b''), (''tool'', PStr ''check_balance''),
                 (''parameters'', PDict [(''account_id'', PInt 2)])] ''tool'') \<and>
   snd (execute_plan example_runtime (\<lambda>n. ''2024-05-01T10:00:00'') demo_db
          [[(''step_id'', PStr ''a''), (''tool'', PStr ''Frobnicate'')]]) = demo_db \<and>
   map_of (fst (execute_plan example_runtime (\<lambda>n. ''2024-05-01T10:00:00'') demo_db
       [[(''step_id'', PStr ''a''), (''tool'', PStr ''Frobnicate'')],
        [(''step_id'', PStr ''b''), (''tool'', PStr ''check_balance''),
         (''parameters'', PDict [(''account_id'', PInt 2)])]])) ''step_b'' =
     Some (PDict [(''success'', PBool True), (''balance'', PFloat 2000), (''account_id'', PInt 2)]) \<and>
   snd (execute_plan example_runtime (\<lambda>n. ''2024-05-01T10:00:00'') demo_db
       [[(''step_id'', PStr ''a''), (''tool'', PStr ''Frobnicate'')],
        [(''step_id'', PStr ''b''), (''tool'', PStr ''check_balance''),
         (''parameters'', PDict [(''account_id'', PInt 2)])]]) = demo_db"
proof -
  let ?a = "[(''step_id'', PStr ''a''), (''tool'', PStr ''Frobnicate'')]"
  let ?b = "[(''step_id'', PStr ''b''), (''tool'', PStr ''check_balance''),
             (''parameters'', PDict [(''account_id'', PInt 2)])]"
  let ?clock = "\<lambda>n::nat. ''2024-05-01T10:00:00''"
  have t: "PStr ''Frobnicate'' \<noteq> PNone" by simp
  have u: "normalized_tool example_runtime (PStr ''Frobnicate'') \<notin> PStr ` set canonical_tools"
    by (simp add: normalized_frobnicate canonical_tools_def)
  have ta: "dget ?a ''tool'' = PStr ''Frobnicate''"
    and tb: "dget ?b ''tool'' = PStr ''check_balance''"
    and pb: "dget_default ?b ''parameters'' (PDict []) = PDict [(''account_id'', PInt 2)]"
    by (simp_all add: dget_def dget_default_def)
  have ka: "step_key example_runtime ?a = ''step_a''"
    and kb: "step_key example_runtime ?b = ''step_b''"
    by (simp_all add: step_key_def dget_def)
  have trb: "truthy (dget ?b ''tool'')" by (simp add: tb)
  have fresh: "step_key example_runtime ?b \<notin> step_key example_runtime ` set []" by simp
  have failed: "\<forall>s \<in> set [?a]. \<not> truthy (dget s ''tool'') \<or>
        normalized_tool example_runtime (dget s ''tool'') \<notin> PStr ` set canonical_tools"
    using u by (simp add: ta)
  note inst = unknown_tool_fails_without_stopping_plan
    [where tool_name = "PStr ''Frobnicate''" and rt = example_runtime
       and now = "''2024-05-01T10:00:00''" and db = demo_db and parameters = "PDict []"
       and steps = "[?a, ?b]" and clock = ?clock and pre = "[?a]" and step = ?b and post = "[]"]
  from inst t u
  have e: "execute_tool example_runtime ''2024-05-01T10:00:00'' demo_db (PStr ''Frobnicate'') (PDict []) =
     ([(''success'', PBool False),
       (''error'', PStr (''Unknown tool: '' @ py_str example_runtime (PStr ''Frobnicate'') @
          '' (normalized: '' @
          py_str example_runtime (normalized_tool example_runtime (PStr ''Frobnicate'')) @ '')''))],
      demo_db)"
    by blast
  then have e': "execute_tool example_runtime ''2024-05-01T10:00:00'' demo_db (PStr ''Frobnicate'') (PDict []) =
     ([(''success'', PBool False),
       (''error'', PStr ''Unknown tool: Frobnicate (normalized: Frobnicate)'')], demo_db)"
    by (simp add: normalized_frobnicate)
  from inst have "step_key example_runtime ?a \<in>
      fst ` set (fst (execute_plan example_runtime ?clock demo_db [?a, ?b]))"
    by simp
  then have m: "''step_a'' \<in> fst ` set (fst (execute_plan example_runtime ?clock demo_db [?a, ?b]))"
    unfolding ka .
  from inst failed have st: "snd (execute_plan example_runtime ?clock demo_db [?a]) = demo_db"
    by blast
  from inst trb fresh
  have "map_of (fst (execute_plan example_runtime ?clock demo_db ([?a] @ ?b # []))) (step_key example_runtime ?b) =
        Some (PDict (fst (execute_tool example_runtime (?clock (length [?a]))
                            (snd (execute_plan example_runtime ?clock demo_db [?a]))
                            (dget ?b ''tool'') (dget_default ?b ''parameters'' (PDict [])))))"
    by blast
  then have en: "map_of (fst (execute_plan example_runtime ?clock demo_db [?a, ?b])) ''step_b'' =
        Some (PDict (fst (execute_tool example_runtime ''2024-05-01T10:00:00'' demo_db
                            (PStr ''check_balance'') (PDict [(''account_id'', PInt 2)]))))"
    unfolding st kb tb pb by simp
  have b: "execute_tool example_runtime ''2024-05-01T10:00:00'' demo_db (PStr ''check_balance'')
             (PDict [(''account_id'', PInt 2)]) =
           ([(''success'', PBool True), (''balance'', PFloat 2000), (''account_id'', PInt 2)], demo_db)"
    by (simp add: execute_tool_get_balance normalized_check_balance exec_get_balance_def dget_def
          ops_get_balance_def get_balance_PInt int64_def demo_select_2)
  from inst trb
  have "snd (execute_plan example_runtime ?clock demo_db ([?a] @ [?b])) =
        snd (execute_tool example_runtime (?clock (length [?a]))
               (snd (execute_plan example_runtime ?clock demo_db [?a]))
               (dget ?b ''tool'') (dget_default ?b ''parameters'' (PDict [])))"
    by simp
  then have fin: "snd (execute_plan example_runtime ?clock demo_db [?a, ?b]) = demo_db"
    unfolding st tb pb by (simp add: b)
  from t u e' m trb st en b fin show ?thesis by simp
qed

end
